theory Spec2Isabelle
  imports Complex_Main
begin

section \<open>The \<open>describe\<close> plugin of the cf command line client (describe.go)\<close>

text \<open>
  The plugin is one Go file. Everything it does goes through three kinds of effect:
  calls on the host's connection handle, text written to standard output, and the end of
  the process (\<open>os.Exit\<close> or a run-time panic). The embedding makes the three explicit:
  a program is a function from the process state (the text printed so far and the trace of
  connection calls made so far) to a result and the state it leaves.
\<close>

subsection \<open>Data\<close>

text \<open>
  A JSON value as \<open>encoding/json\<close> decodes it into an \<open>interface{}\<close>: nil, bool, float64
  (every float64 that JSON can carry is a real number), string, slice, map.
\<close>

datatype jvalue =
    JNull
  | JBool bool
  | JNumber real
  | JString string
  | JArray "jvalue list"
  | JObject "(string \<times> jvalue) list"

text \<open>One element of \<open>CurlResponse.Resources\<close>: the two maps \<open>Metadata\<close> and \<open>Entity\<close>.\<close>

record resource =
  Metadata :: "string \<rightharpoonup> jvalue"
  EntityMap :: "string \<rightharpoonup> jvalue"

text \<open>
  \<open>TotalResults\<close> is a Go \<open>int\<close>. The program only compares it with 0, so the unbounded
  integers lose nothing.
\<close>

record CurlResponse =
  TotalResults :: int
  Resources :: "resource list"

text \<open>\<open>plugin_models.GetSpaces_Model\<close> of the host's plugin interface: a guid and a name.\<close>

record GetSpaces_Model =
  Guid :: string
  Name :: string

text \<open>The zero value \<open>plugin_models.GetSpaces_Model{}\<close>.\<close>

definition zero_GetSpaces_Model :: GetSpaces_Model where
  "zero_GetSpaces_Model = \<lparr>Guid = [], Name = []\<rparr>"

text \<open>
  The connection handle \<open>plugin.CliConnection\<close>, as far as the plugin uses it. The plugin
  drops the error each of the three methods returns and goes on with the value. A run of
  the plugin sees one snapshot of the platform: the same command line gets the same answer.
\<close>

record CliConnection =
  CliCommandWithoutTerminalOutput :: "string list \<Rightarrow> string list"
  Username :: string
  GetSpaces :: "GetSpaces_Model list"

text \<open>
  The library functions the plugin calls and whose code is not part of the repository are
  parameters of the model:
  \<^item> \<open>json_Unmarshal\<close>: \<open>json.Unmarshal\<close> into a \<open>CurlResponse\<close>; \<open>Inl\<close> carries \<open>err.Error()\<close>;
  \<^item> \<open>flag_Parse\<close>: \<open>FlagSet.Parse\<close> for the flag set of \<open>ParseFlags\<close>; \<open>Inl\<close> carries
    \<open>err.Error()\<close>, \<open>Inr\<close> the values of \<open>-b\<close>, \<open>-s\<close> and \<open>-show-guids\<close>;
  \<^item> \<open>url_QueryEscape\<close>: \<open>url.QueryEscape\<close>;
  \<^item> \<open>EntityNameColor\<close>, \<open>WarningColor\<close>, \<open>FailureColor\<close>: the colouring functions of
    package \<open>terminal\<close>;
  \<^item> \<open>fmt_Printf0\<close>: what \<open>fmt.Printf\<close> prints for a format string with no operands;
  \<^item> \<open>fmt_verb_s\<close>: what the verb \<open>%s\<close> prints for an operand that is not a string.
\<close>

record lib =
  json_Unmarshal :: "string \<Rightarrow> string + CurlResponse"
  flag_Parse :: "string list \<Rightarrow> string + (string \<times> string \<times> bool)"
  url_QueryEscape :: "string \<Rightarrow> string"
  EntityNameColor :: "string \<Rightarrow> string"
  WarningColor :: "string \<Rightarrow> string"
  FailureColor :: "string \<Rightarrow> string"
  fmt_Printf0 :: "string \<Rightarrow> string"
  fmt_verb_s :: "jvalue \<Rightarrow> string"

text \<open>The receiver \<open>DescribePlugin\<close>.\<close>

record DescribePlugin =
  cliConnection :: CliConnection
  brokerName :: string
  serviceName :: string
  showGuids :: bool

subsection \<open>Programs: state, exits and panics\<close>

datatype call = CallCurl string | CallUsername | CallGetSpaces

record process =
  stdout :: string
  calls :: "call list"

text \<open>
  How a program stops early: \<open>os.Exit\<close> with a status, or a run-time panic (an index out
  of range, a failed type assertion).
\<close>

datatype abort = Exit int | Panic

type_synonym 'a prog = "process \<Rightarrow> (abort + 'a) \<times> process"

definition ret :: "'a \<Rightarrow> 'a prog" where
  "ret x = (\<lambda>st. (Inr x, st))"

definition bind :: "'a prog \<Rightarrow> ('a \<Rightarrow> 'b prog) \<Rightarrow> 'b prog" where
  "bind m f = (\<lambda>st. case m st of (Inl a, st') \<Rightarrow> (Inl a, st') | (Inr x, st') \<Rightarrow> f x st')"

definition panic :: "'a prog" where
  "panic = (\<lambda>st. (Inl Panic, st))"

definition print :: "string \<Rightarrow> unit prog" where
  "print s = (\<lambda>st. (Inr (), st\<lparr>stdout := stdout st @ s\<rparr>))"

definition os_Exit :: "int \<Rightarrow> 'a prog" where
  "os_Exit n = (\<lambda>st. (Inl (Exit n), st))"

definition record_call :: "call \<Rightarrow> unit prog" where
  "record_call c = (\<lambda>st. (Inr (), st\<lparr>calls := calls st @ [c]\<rparr>))"

subsection \<open>Small steps of the Go run time\<close>

text \<open>\<open>m[k]\<close> on a \<open>map[string]interface{}\<close>: a missing key reads as nil.\<close>

definition index_map :: "(string \<rightharpoonup> jvalue) \<Rightarrow> string \<Rightarrow> jvalue" where
  "index_map m k = (case m k of None \<Rightarrow> JNull | Some v \<Rightarrow> v)"

text \<open>The type assertion \<open>v.(string)\<close>: it panics on everything that is not a string.\<close>

fun assert_string :: "jvalue \<Rightarrow> string prog" where
  "assert_string (JString s) = ret s"
| "assert_string _ = panic"

text \<open>\<open>xs[0]\<close> on a slice: it panics on the empty slice.\<close>

fun index0 :: "'a list \<Rightarrow> 'a prog" where
  "index0 [] = panic"
| "index0 (x # _) = ret x"

text \<open>\<open>orgs[k]\<close> on a \<open>map[string]string\<close>: a missing key reads as the empty string.\<close>

definition index_orgs :: "(string \<rightharpoonup> string) \<Rightarrow> string \<Rightarrow> string" where
  "index_orgs m k = (case m k of None \<Rightarrow> [] | Some v \<Rightarrow> v)"

text \<open>The verb \<open>%s\<close> of \<open>fmt.Sprintf\<close> on an \<open>interface{}\<close> operand.\<close>

fun sprint_s :: "lib \<Rightarrow> jvalue \<Rightarrow> string" where
  "sprint_s L (JString s) = s"
| "sprint_s L v = fmt_verb_s L v"

subsection \<open>The helpers \<open>Entity\<close>, \<open>Fail\<close>, \<open>Warn\<close>\<close>

definition Entity :: "lib \<Rightarrow> string \<Rightarrow> string" where
  "Entity L s = EntityNameColor L s"

definition Fail :: "lib \<Rightarrow> string \<Rightarrow> string \<Rightarrow> 'a prog" where
  "Fail L err message =
     bind (print (FailureColor L ''FAILED'' @ '': '' @ message @ ''. Error: '' @ err))
       (\<lambda>_. os_Exit 1)"

definition Warn :: "lib \<Rightarrow> string \<Rightarrow> 'a prog" where
  "Warn L message =
     bind (print (fmt_Printf0 L (WarningColor L message))) (\<lambda>_. os_Exit 0)"

subsection \<open>\<open>findSpace\<close> and \<open>DescribeService\<close>\<close>

fun findSpace :: "GetSpaces_Model list \<Rightarrow> string \<Rightarrow> GetSpaces_Model" where
  "findSpace [] spaceGUID = zero_GetSpaces_Model"
| "findSpace (s # spaces) spaceGUID =
     (if Guid s = spaceGUID then s else findSpace spaces spaceGUID)"

definition DescribeService :: "lib \<Rightarrow> DescribePlugin \<Rightarrow> unit prog" where
  "DescribeService L d = ret ()"

subsection \<open>\<open>curl\<close>\<close>

text \<open>
  What \<open>curl\<close> computes from the host's answer: the output lines of the command
  \<open>curl endpoint\<close> joined without a separator, then decoded.
\<close>

definition fetch :: "lib \<Rightarrow> DescribePlugin \<Rightarrow> string \<Rightarrow> string + CurlResponse" where
  "fetch L d endpoint =
     (let brokersResponse =
            CliCommandWithoutTerminalOutput (cliConnection d) [''curl'', endpoint]
      in json_Unmarshal L (concat brokersResponse))"

definition curl :: "lib \<Rightarrow> DescribePlugin \<Rightarrow> string \<Rightarrow> CurlResponse prog" where
  "curl L d endpoint =
     bind (record_call (CallCurl endpoint)) (\<lambda>_.
       case fetch L d endpoint of
         Inl err \<Rightarrow> Fail L err ''could not unmarshal response''
       | Inr curlResponse \<Rightarrow> ret curlResponse)"

subsection \<open>\<open>getOrgs\<close>\<close>

text \<open>The loop of \<open>getOrgs\<close>, with the map \<open>orgs\<close> built so far.\<close>

fun getOrgs_loop ::
  "lib \<Rightarrow> DescribePlugin \<Rightarrow> GetSpaces_Model list \<Rightarrow> (string \<rightharpoonup> string) \<Rightarrow>
   (string \<rightharpoonup> string) prog" where
  "getOrgs_loop L d [] orgs = ret orgs"
| "getOrgs_loop L d (space # spaces) orgs =
     bind (curl L d (''/v2/organizations?q=space_guid:'' @ Guid space)) (\<lambda>orgResponse.
     bind (index0 (Resources orgResponse)) (\<lambda>r.
     bind (assert_string (index_map (EntityMap r) ''name'')) (\<lambda>name.
       getOrgs_loop L d spaces (orgs(Guid space \<mapsto> name)))))"

definition getOrgs ::
  "lib \<Rightarrow> DescribePlugin \<Rightarrow> GetSpaces_Model list \<Rightarrow> (string \<rightharpoonup> string) prog" where
  "getOrgs L d spaces = getOrgs_loop L d spaces Map.empty"

subsection \<open>\<open>DescribeBroker\<close>\<close>

text \<open>
  The inner loop, over the instances of one plan. \<open>response\<close> is the buffer
  \<open>bytes.Buffer\<close> of \<open>DescribeBroker\<close>: the loops append to it and nothing is printed.
\<close>

fun instances_loop ::
  "lib \<Rightarrow> DescribePlugin \<Rightarrow> GetSpaces_Model list \<Rightarrow> (string \<rightharpoonup> string) \<Rightarrow>
   resource list \<Rightarrow> string \<Rightarrow> string prog" where
  "instances_loop L d spaces orgs [] response = ret response"
| "instances_loop L d spaces orgs (instance # instances) response =
     (let response1 = response @ ''  '' in
      bind (assert_string (index_map (EntityMap instance) ''space_guid'')) (\<lambda>spaceGUID.
      let space = findSpace spaces spaceGUID in
      bind (if showGuids d
            then bind (assert_string (index_map (Metadata instance) ''guid'')) (\<lambda>guid.
                   ret (response1 @ ''Guid: '' @ Entity L guid @ '' - ''))
            else ret response1) (\<lambda>response2.
      bind (assert_string (index_map (EntityMap instance) ''name'')) (\<lambda>name.
        instances_loop L d spaces orgs instances
          (response2 @ ''Name: '' @ Entity L name @ '' - Org: '' @
             Entity L (index_orgs orgs (Guid space)) @ '' - Space: '' @
             Entity L (Name space) @ ''\<newline>'')))))"

text \<open>The outer loop, over the plans.\<close>

fun plans_loop ::
  "lib \<Rightarrow> DescribePlugin \<Rightarrow> GetSpaces_Model list \<Rightarrow> (string \<rightharpoonup> string) \<Rightarrow>
   resource list \<Rightarrow> string \<Rightarrow> string prog" where
  "plans_loop L d spaces orgs [] response = ret response"
| "plans_loop L d spaces orgs (plan # plans) response =
     bind (assert_string (index_map (EntityMap plan) ''service_instances_url'')) (\<lambda>url.
     bind (curl L d url) (\<lambda>instances.
     bind (if TotalResults instances > 0
           then bind (assert_string (index_map (EntityMap plan) ''name'')) (\<lambda>name.
                  instances_loop L d spaces orgs (Resources instances)
                    (response @ ''Plan '' @ Entity L name @ '':\<newline>''))
           else ret response) (\<lambda>response'.
       plans_loop L d spaces orgs plans response')))"

definition DescribeBroker :: "lib \<Rightarrow> DescribePlugin \<Rightarrow> unit prog" where
  "DescribeBroker L d =
     bind (curl L d (''/v2/service_brokers?q=name:'' @ url_QueryEscape L (brokerName d)))
       (\<lambda>curlResponse.
     bind (if TotalResults curlResponse = 0 then Warn L (brokerName d @ '' not found'')
           else ret ()) (\<lambda>_.
     bind (index0 (Resources curlResponse)) (\<lambda>r0.
     let brokerGUID = index_map (Metadata r0) ''guid'' in
     bind (record_call CallUsername) (\<lambda>_.
     let username = Username (cliConnection d);
         response = ''Describing broker '' @ Entity L (brokerName d) @
                    '' as visible by '' @ Entity L username @ ''\<newline>\<newline>'' in
     bind (curl L d (''/v2/service_plans?q=service_broker_guid:'' @ sprint_s L brokerGUID))
       (\<lambda>plansResponse.
     bind (if TotalResults plansResponse = 0 then Warn L (brokerName d @ '' has no plans'')
           else ret ()) (\<lambda>_.
     bind (record_call CallGetSpaces) (\<lambda>_.
     let spaces = GetSpaces (cliConnection d) in
     bind (getOrgs L d spaces) (\<lambda>orgs.
     bind (plans_loop L d spaces orgs (Resources plansResponse) response) (\<lambda>response'.
       print (response' @ ''\<newline>''))))))))))"

subsection \<open>\<open>ParseFlags\<close> and \<open>Run\<close>\<close>

text \<open>
  \<open>ParseFlags\<close> reads \<open>args[0]\<close> for the name of the flag set, which panics on an empty
  argument vector, and parses \<open>args[1:]\<close>. It returns the receiver with its three fields
  set.
\<close>

definition ParseFlags :: "lib \<Rightarrow> DescribePlugin \<Rightarrow> string list \<Rightarrow> DescribePlugin prog" where
  "ParseFlags L d args =
     bind (index0 args) (\<lambda>_.
     bind (case flag_Parse L (tl args) of
             Inl err \<Rightarrow> Fail L err ''cannot parse flags''
           | Inr v \<Rightarrow> ret v) (\<lambda>(b, s, g).
       ret (d\<lparr>brokerName := b, serviceName := s, showGuids := g\<rparr>)))"

definition Run ::
  "lib \<Rightarrow> DescribePlugin \<Rightarrow> CliConnection \<Rightarrow> string list \<Rightarrow> DescribePlugin prog" where
  "Run L d conn args =
     (let d0 = d\<lparr>cliConnection := conn\<rparr> in
      bind (index0 args) (\<lambda>a0.
        if a0 = ''describe''
        then bind (ParseFlags L d0 args) (\<lambda>d1.
             bind (if brokerName d1 \<noteq> [] then DescribeBroker L d1 else ret ()) (\<lambda>_.
             bind (if serviceName d1 \<noteq> [] then DescribeService L d1 else ret ()) (\<lambda>_.
               ret d1)))
        else ret d0))"

section \<open>The report as the specification describes it\<close>

text \<open>
  The definitions of this section do not run the program. They read the platform's
  answers directly and say what the report is to contain; the theorems compare them with
  what \<open>DescribeBroker\<close> prints.
\<close>

definition brokers_endpoint :: "lib \<Rightarrow> DescribePlugin \<Rightarrow> string" where
  "brokers_endpoint L d = ''/v2/service_brokers?q=name:'' @ url_QueryEscape L (brokerName d)"

definition plans_endpoint :: "lib \<Rightarrow> jvalue \<Rightarrow> string" where
  "plans_endpoint L guid = ''/v2/service_plans?q=service_broker_guid:'' @ sprint_s L guid"

definition orgs_endpoint :: "string \<Rightarrow> string" where
  "orgs_endpoint guid = ''/v2/organizations?q=space_guid:'' @ guid"

fun is_string :: "jvalue \<Rightarrow> bool" where
  "is_string (JString s) = True"
| "is_string _ = False"

fun string_of :: "jvalue \<Rightarrow> string" where
  "string_of (JString s) = s"
| "string_of _ = []"

text \<open>
  The organization of a space: the name of the first resource of the answer to the
  organizations query for the space's guid, when there is one and it is a string.
\<close>

definition org_name_of :: "lib \<Rightarrow> DescribePlugin \<Rightarrow> string \<Rightarrow> string option" where
  "org_name_of L d guid =
     (case fetch L d (orgs_endpoint guid) of
        Inl _ \<Rightarrow> None
      | Inr r \<Rightarrow>
          (case Resources r of
             [] \<Rightarrow> None
           | r0 # _ \<Rightarrow>
               (if is_string (index_map (EntityMap r0) ''name'')
                then Some (string_of (index_map (EntityMap r0) ''name'')) else None)))"

text \<open>The guid-to-organization mapping over the spaces the user sees.\<close>

definition spec_orgs ::
  "lib \<Rightarrow> DescribePlugin \<Rightarrow> GetSpaces_Model list \<Rightarrow> (string \<rightharpoonup> string)" where
  "spec_orgs L d spaces = (\<lambda>guid. if guid \<in> Guid ` set spaces then org_name_of L d guid else None)"

text \<open>The instance listing of a plan: the decoded answer at its \<open>service_instances_url\<close>.\<close>

definition plan_listing :: "lib \<Rightarrow> DescribePlugin \<Rightarrow> resource \<Rightarrow> CurlResponse option" where
  "plan_listing L d plan =
     (if is_string (index_map (EntityMap plan) ''service_instances_url'')
      then (case fetch L d (string_of (index_map (EntityMap plan) ''service_instances_url'')) of
              Inl _ \<Rightarrow> None
            | Inr r \<Rightarrow> Some r)
      else None)"

text \<open>
  An instance carries what its line needs: a space guid and a name, and a guid when guids
  are shown.
\<close>

definition instance_ok :: "DescribePlugin \<Rightarrow> resource \<Rightarrow> bool" where
  "instance_ok d instance =
     (is_string (index_map (EntityMap instance) ''space_guid'') \<and>
      is_string (index_map (EntityMap instance) ''name'') \<and>
      (showGuids d \<longrightarrow> is_string (index_map (Metadata instance) ''guid'')))"

text \<open>
  A plan carries what its section needs: a listing that decodes and, when the listing
  reports instances, a name and well-formed instances.
\<close>

definition plan_ok :: "lib \<Rightarrow> DescribePlugin \<Rightarrow> resource \<Rightarrow> bool" where
  "plan_ok L d plan =
     (case plan_listing L d plan of
        None \<Rightarrow> False
      | Some r \<Rightarrow>
          TotalResults r > 0 \<longrightarrow>
            is_string (index_map (EntityMap plan) ''name'') \<and>
            list_all (instance_ok d) (Resources r))"

text \<open>What the listing of a plan reports: its result count and its instances.\<close>

definition listed_total :: "lib \<Rightarrow> DescribePlugin \<Rightarrow> resource \<Rightarrow> int" where
  "listed_total L d plan =
     (case plan_listing L d plan of None \<Rightarrow> 0 | Some r \<Rightarrow> TotalResults r)"

definition listed_instances :: "lib \<Rightarrow> DescribePlugin \<Rightarrow> resource \<Rightarrow> resource list" where
  "listed_instances L d plan =
     (case plan_listing L d plan of None \<Rightarrow> [] | Some r \<Rightarrow> Resources r)"

definition has_instances :: "lib \<Rightarrow> DescribePlugin \<Rightarrow> resource \<Rightarrow> bool" where
  "has_instances L d plan = (listed_total L d plan > 0)"

text \<open>
  The part of an instance line that is always there: the name of the instance, the
  organization of its space and the name of its space.
\<close>

definition instance_name_part ::
  "lib \<Rightarrow> GetSpaces_Model list \<Rightarrow> (string \<rightharpoonup> string) \<Rightarrow> resource \<Rightarrow> string" where
  "instance_name_part L spaces orgs instance =
     (let space = findSpace spaces (string_of (index_map (EntityMap instance) ''space_guid''))
      in ''Name: '' @ Entity L (string_of (index_map (EntityMap instance) ''name'')) @
         '' - Org: '' @ Entity L (index_orgs orgs (Guid space)) @
         '' - Space: '' @ Entity L (Name space) @ ''\<newline>'')"

text \<open>The line of an instance: two spaces, the guid field when guids are shown, the rest.\<close>

definition instance_line ::
  "lib \<Rightarrow> bool \<Rightarrow> GetSpaces_Model list \<Rightarrow> (string \<rightharpoonup> string) \<Rightarrow> resource \<Rightarrow> string" where
  "instance_line L show spaces orgs instance =
     ''  '' @
     (if show
      then ''Guid: '' @ Entity L (string_of (index_map (Metadata instance) ''guid'')) @ '' - ''
      else []) @
     instance_name_part L spaces orgs instance"

text \<open>
  The section of a plan is its header line and one line for each listed instance. The
  report is the two header lines, the sections of the plans that have instances, in the
  order of the plans, and the line end that \<open>Println\<close> adds.
\<close>

definition spec_plan_header :: "lib \<Rightarrow> resource \<Rightarrow> string" where
  "spec_plan_header L plan =
     ''Plan '' @ Entity L (string_of (index_map (EntityMap plan) ''name'')) @ '':\<newline>''"

definition spec_plan_section ::
  "lib \<Rightarrow> DescribePlugin \<Rightarrow> (resource \<Rightarrow> string) \<Rightarrow> resource \<Rightarrow> string" where
  "spec_plan_section L d line plan =
     spec_plan_header L plan @ concat (map line (listed_instances L d plan))"

definition spec_header :: "lib \<Rightarrow> DescribePlugin \<Rightarrow> string" where
  "spec_header L d =
     ''Describing broker '' @ Entity L (brokerName d) @ '' as visible by '' @
     Entity L (Username (cliConnection d)) @ ''\<newline>\<newline>''"

definition spec_report ::
  "lib \<Rightarrow> DescribePlugin \<Rightarrow> (resource \<Rightarrow> string) \<Rightarrow> resource list \<Rightarrow> string" where
  "spec_report L d line plans =
     spec_header L d @
     concat (map (spec_plan_section L d line) (filter (has_instances L d) plans)) @
     ''\<newline>''"

text \<open>The connection calls of a complete run, in order.\<close>

definition spec_calls :: "lib \<Rightarrow> DescribePlugin \<Rightarrow> jvalue \<Rightarrow> resource list \<Rightarrow> call list" where
  "spec_calls L d guid plans =
     [CallCurl (brokers_endpoint L d), CallUsername, CallCurl (plans_endpoint L guid),
      CallGetSpaces] @
     map (\<lambda>space. CallCurl (orgs_endpoint (Guid space))) (GetSpaces (cliConnection d)) @
     map (\<lambda>plan. CallCurl (string_of (index_map (EntityMap plan) ''service_instances_url'')))
       plans"

text \<open>The two messages a run can end on.\<close>

definition failure_text :: "lib \<Rightarrow> string \<Rightarrow> string \<Rightarrow> string" where
  "failure_text L message err =
     FailureColor L ''FAILED'' @ '': '' @ message @ ''. Error: '' @ err"

definition warning_text :: "lib \<Rightarrow> string \<Rightarrow> string" where
  "warning_text L message = fmt_Printf0 L (WarningColor L message)"

text \<open>
  A run has stopped on a decoding failure, having started with \<open>out\<close> on standard output,
  when its last call on the connection is a \<open>curl\<close> whose answer does not decode, and its
  output is \<open>out\<close> and the failure message with the error of that decoding.
\<close>

definition decode_failure :: "lib \<Rightarrow> DescribePlugin \<Rightarrow> string \<Rightarrow> process \<Rightarrow> bool" where
  "decode_failure L d out st' =
     (\<exists>endpoint err.
        calls st' \<noteq> [] \<and> last (calls st') = CallCurl endpoint \<and>
        fetch L d endpoint = Inl err \<and>
        stdout st' = out @ failure_text L ''could not unmarshal response'' err)"

text \<open>
  A step is quiet when it prints nothing, unless it stops on an answer that does not
  decode: then it has printed the failure message for that answer and nothing else.
\<close>

definition quiet ::
  "lib \<Rightarrow> DescribePlugin \<Rightarrow> process \<Rightarrow> (abort + 'a) \<times> process \<Rightarrow> bool" where
  "quiet L d st out =
     (case fst out of
        Inr _ \<Rightarrow> stdout (snd out) = stdout st
      | Inl Panic \<Rightarrow> stdout (snd out) = stdout st
      | Inl (Exit n) \<Rightarrow> n = 1 \<and> decode_failure L d (stdout st) (snd out))"

text \<open>
  What a run of \<open>DescribeBroker\<close> that started with \<open>out\<close> on standard output may leave
  there when it stops early: nothing more when it panics, one of the two warnings when it
  exits with code 0, the failure message of the answer that did not decode when it exits
  with code 1.
\<close>

definition broker_output_ok ::
  "lib \<Rightarrow> DescribePlugin \<Rightarrow> string \<Rightarrow> (abort + unit) \<times> process \<Rightarrow> bool" where
  "broker_output_ok L d out result =
     (case fst result of
        Inr _ \<Rightarrow> True
      | Inl Panic \<Rightarrow> stdout (snd result) = out
      | Inl (Exit n) \<Rightarrow>
          (n = 0 \<and>
           (stdout (snd result) = out @ warning_text L (brokerName d @ '' not found'') \<or>
            stdout (snd result) = out @ warning_text L (brokerName d @ '' has no plans''))) \<or>
          (n = 1 \<and> decode_failure L d out (snd result)))"

text \<open>A fact that holds whenever a step returns.\<close>

definition if_returns :: "bool \<Rightarrow> (abort + 'a) \<times> process \<Rightarrow> bool" where
  "if_returns Q out = (case fst out of Inr _ \<Rightarrow> Q | Inl _ \<Rightarrow> True)"

text \<open>
  The answers are well formed for a report: the broker is found, it has plans, every
  visible space has its organization and every plan is well formed.
\<close>

definition report_ok :: "lib \<Rightarrow> DescribePlugin \<Rightarrow> CurlResponse \<Rightarrow> resource \<Rightarrow> CurlResponse \<Rightarrow> bool" where
  "report_ok L d br b0 pr =
     (fetch L d (brokers_endpoint L d) = Inr br \<and> TotalResults br \<noteq> 0 \<and>
      (\<exists>bs. Resources br = b0 # bs) \<and>
      fetch L d (plans_endpoint L (index_map (Metadata b0) ''guid'')) = Inr pr \<and>
      TotalResults pr \<noteq> 0 \<and>
      (\<forall>s \<in> set (GetSpaces (cliConnection d)). org_name_of L d (Guid s) \<noteq> None) \<and>
      (\<forall>p \<in> set (Resources pr). plan_ok L d p))"

section \<open>A small platform to run the program on\<close>

text \<open>
  One connection and one library, used to evaluate the program at concrete inputs. The
  platform has two spaces, \<open>dev\<close> (guid \<open>s1\<close>, organization \<open>acme\<close>) and \<open>prod\<close> (guid \<open>s2\<close>,
  organization \<open>globex\<close>), and four brokers:
  \<^item> \<open>b1\<close>: one plan \<open>gold\<close> with one instance \<open>db1\<close> (guid \<open>i1\<close>) in space \<open>s1\<close>;
  \<^item> \<open>b2\<close>: no plans;
  \<^item> \<open>b3\<close>: two plans, \<open>silver\<close> and \<open>bronze\<close>, without instances;
  \<^item> \<open>b4\<close>: the plan \<open>gold\<close> of \<open>b1\<close> and a plan \<open>lead\<close> whose instance listing is an error
    page of a proxy.
  Every other query has no results.
\<close>

definition json_none :: string where
  \<open>json_none = ''{"total_results":0,"resources":[]}''\<close>

definition json_broker_b1 :: string where
  \<open>json_broker_b1 = ''{"total_results":1,"resources":[{"metadata":{"guid":"bg1"},"entity":{"name":"b1"}}]}''\<close>

definition json_broker_b2 :: string where
  \<open>json_broker_b2 = ''{"total_results":1,"resources":[{"metadata":{"guid":"bg2"},"entity":{"name":"b2"}}]}''\<close>

definition json_broker_b3 :: string where
  \<open>json_broker_b3 = ''{"total_results":1,"resources":[{"metadata":{"guid":"bg3"},"entity":{"name":"b3"}}]}''\<close>

definition json_broker_b4 :: string where
  \<open>json_broker_b4 = ''{"total_results":1,"resources":[{"metadata":{"guid":"bg4"},"entity":{"name":"b4"}}]}''\<close>

definition json_plans_bg1 :: string where
  \<open>json_plans_bg1 = ''{"total_results":1,"resources":[{"metadata":{"guid":"p1"},"entity":{"name":"gold","service_instances_url":"/v2/service_plans/p1/service_instances"}}]}''\<close>

definition json_plans_bg3 :: string where
  \<open>json_plans_bg3 = ''{"total_results":2,"resources":[{"metadata":{"guid":"p3"},"entity":{"name":"silver","service_instances_url":"/v2/service_plans/p3/service_instances"}},{"metadata":{"guid":"p4"},"entity":{"name":"bronze","service_instances_url":"/v2/service_plans/p4/service_instances"}}]}''\<close>

definition json_plans_bg4 :: string where
  \<open>json_plans_bg4 = ''{"total_results":2,"resources":[{"metadata":{"guid":"p1"},"entity":{"name":"gold","service_instances_url":"/v2/service_plans/p1/service_instances"}},{"metadata":{"guid":"p5"},"entity":{"name":"lead","service_instances_url":"/v2/service_plans/p5/service_instances"}}]}''\<close>

definition json_instances_p1 :: string where
  \<open>json_instances_p1 = ''{"total_results":1,"resources":[{"metadata":{"guid":"i1"},"entity":{"name":"db1","space_guid":"s1"}}]}''\<close>

definition json_org_acme :: string where
  \<open>json_org_acme = ''{"total_results":1,"resources":[{"metadata":{"guid":"o1"},"entity":{"name":"acme"}}]}''\<close>

definition json_org_globex :: string where
  \<open>json_org_globex = ''{"total_results":1,"resources":[{"metadata":{"guid":"o2"},"entity":{"name":"globex"}}]}''\<close>

definition html_bad_gateway :: string where
  \<open>html_bad_gateway = ''<html>502 Bad Gateway</html>''\<close>

text \<open>The host's answer to a command line, as lines; the broker \<open>b1\<close> comes in two lines.\<close>

definition ex_command :: "string list \<Rightarrow> string list" where
  "ex_command args =
     (if args = [''curl'', ''/v2/service_brokers?q=name:b1'']
        then [take 20 json_broker_b1, drop 20 json_broker_b1]
      else if args = [''curl'', ''/v2/service_brokers?q=name:b2''] then [json_broker_b2]
      else if args = [''curl'', ''/v2/service_brokers?q=name:b3''] then [json_broker_b3]
      else if args = [''curl'', ''/v2/service_brokers?q=name:b4''] then [json_broker_b4]
      else if args = [''curl'', ''/v2/service_plans?q=service_broker_guid:bg1'']
        then [json_plans_bg1]
      else if args = [''curl'', ''/v2/service_plans?q=service_broker_guid:bg3'']
        then [json_plans_bg3]
      else if args = [''curl'', ''/v2/service_plans?q=service_broker_guid:bg4'']
        then [json_plans_bg4]
      else if args = [''curl'', ''/v2/service_plans/p1/service_instances'']
        then [json_instances_p1]
      else if args = [''curl'', ''/v2/service_plans/p5/service_instances'']
        then [html_bad_gateway]
      else if args = [''curl'', ''/v2/organizations?q=space_guid:s1''] then [json_org_acme]
      else if args = [''curl'', ''/v2/organizations?q=space_guid:s2''] then [json_org_globex]
      else [json_none])"

definition ex_resource :: "(string \<times> string) list \<Rightarrow> (string \<times> string) list \<Rightarrow> resource" where
  "ex_resource metadata entity =
     \<lparr>Metadata = map_of (map (\<lambda>(k, v). (k, JString v)) metadata),
      EntityMap = map_of (map (\<lambda>(k, v). (k, JString v)) entity)\<rparr>"

definition ex_plan :: "string \<Rightarrow> string \<Rightarrow> resource" where
  "ex_plan guid name =
     ex_resource [(''guid'', guid)]
       [(''name'', name),
        (''service_instances_url'', ''/v2/service_plans/'' @ guid @ ''/service_instances'')]"

text \<open>
  The decoder on the texts above. The error page starts with \<open><\<close>, which no JSON value
  starts with, and the decoder says so. The platform prints no other text; the error for
  the empty text stands for the rest.
\<close>

definition ex_json_Unmarshal :: "string \<Rightarrow> string + CurlResponse" where
  "ex_json_Unmarshal text =
     (if text = json_none then Inr \<lparr>TotalResults = 0, Resources = []\<rparr>
      else if text = json_broker_b1
        then Inr \<lparr>TotalResults = 1,
                  Resources = [ex_resource [(''guid'', ''bg1'')] [(''name'', ''b1'')]]\<rparr>
      else if text = json_broker_b2
        then Inr \<lparr>TotalResults = 1,
                  Resources = [ex_resource [(''guid'', ''bg2'')] [(''name'', ''b2'')]]\<rparr>
      else if text = json_broker_b3
        then Inr \<lparr>TotalResults = 1,
                  Resources = [ex_resource [(''guid'', ''bg3'')] [(''name'', ''b3'')]]\<rparr>
      else if text = json_broker_b4
        then Inr \<lparr>TotalResults = 1,
                  Resources = [ex_resource [(''guid'', ''bg4'')] [(''name'', ''b4'')]]\<rparr>
      else if text = json_plans_bg1
        then Inr \<lparr>TotalResults = 1, Resources = [ex_plan ''p1'' ''gold'']\<rparr>
      else if text = json_plans_bg3
        then Inr \<lparr>TotalResults = 2,
                  Resources = [ex_plan ''p3'' ''silver'', ex_plan ''p4'' ''bronze'']\<rparr>
      else if text = json_plans_bg4
        then Inr \<lparr>TotalResults = 2,
                  Resources = [ex_plan ''p1'' ''gold'', ex_plan ''p5'' ''lead'']\<rparr>
      else if text = json_instances_p1
        then Inr \<lparr>TotalResults = 1,
                  Resources = [ex_resource [(''guid'', ''i1'')]
                                 [(''name'', ''db1''), (''space_guid'', ''s1'')]]\<rparr>
      else if text = json_org_acme
        then Inr \<lparr>TotalResults = 1,
                  Resources = [ex_resource [(''guid'', ''o1'')] [(''name'', ''acme'')]]\<rparr>
      else if text = json_org_globex
        then Inr \<lparr>TotalResults = 1,
                  Resources = [ex_resource [(''guid'', ''o2'')] [(''name'', ''globex'')]]\<rparr>
      else if text = html_bad_gateway
        then Inl ''invalid character '<' looking for beginning of value''
      else Inl ''unexpected end of JSON input'')"

text \<open>
  A stand-in for the flag parser, on the forms \<open>-b value\<close>, \<open>-s value\<close> and \<open>-show-guids\<close>:
  a flag that is not defined or that lacks its value is an error, and the first argument
  that is not a flag ends the parsing.
\<close>

fun ex_flags :: "string list \<Rightarrow> string \<times> string \<times> bool \<Rightarrow> string + (string \<times> string \<times> bool)" where
  "ex_flags [] v = Inr v"
| "ex_flags (a # as) (b, s, g) =
     (if a = ''-b'' then (case as of [] \<Rightarrow> Inl ''flag needs an argument: -b''
                          | x # as' \<Rightarrow> ex_flags as' (x, s, g))
      else if a = ''-s'' then (case as of [] \<Rightarrow> Inl ''flag needs an argument: -s''
                               | x # as' \<Rightarrow> ex_flags as' (b, x, g))
      else if a = ''-show-guids'' then ex_flags as (b, s, True)
      else if length a < 2 \<or> hd a \<noteq> CHR ''-'' then Inr (b, s, g)
      else Inl (''flag provided but not defined: '' @ a))"

definition ex_flag_Parse :: "string list \<Rightarrow> string + (string \<times> string \<times> bool)" where
  "ex_flag_Parse args = ex_flags args ([], [], False)"

text \<open>
  The library: colours are off, and the names in the examples have no character that
  \<open>url.QueryEscape\<close> or \<open>fmt.Printf\<close> would change.
\<close>

definition ex_lib :: lib where
  "ex_lib =
     \<lparr>json_Unmarshal = ex_json_Unmarshal,
      flag_Parse = ex_flag_Parse,
      url_QueryEscape = (\<lambda>s. s),
      EntityNameColor = (\<lambda>s. s),
      WarningColor = (\<lambda>s. s),
      FailureColor = (\<lambda>s. s),
      fmt_Printf0 = (\<lambda>s. s),
      fmt_verb_s = (\<lambda>v. ''%!s(?)'')\<rparr>"

definition ex_spaces :: "GetSpaces_Model list" where
  "ex_spaces = [\<lparr>Guid = ''s1'', Name = ''dev''\<rparr>, \<lparr>Guid = ''s2'', Name = ''prod''\<rparr>]"

definition ex_conn :: CliConnection where
  "ex_conn =
     \<lparr>CliCommandWithoutTerminalOutput = ex_command,
      Username = ''admin'',
      GetSpaces = ex_spaces\<rparr>"

definition ex_plugin :: "string \<Rightarrow> bool \<Rightarrow> DescribePlugin" where
  "ex_plugin broker guids =
     \<lparr>cliConnection = ex_conn, brokerName = broker, serviceName = [], showGuids = guids\<rparr>"

text \<open>A plugin value as \<open>new(DescribePlugin)\<close> gives it, with no connection yet.\<close>

definition no_conn :: CliConnection where
  "no_conn = \<lparr>CliCommandWithoutTerminalOutput = (\<lambda>args. []), Username = [], GetSpaces = []\<rparr>"

definition new_DescribePlugin :: DescribePlugin where
  "new_DescribePlugin =
     \<lparr>cliConnection = no_conn, brokerName = [], serviceName = [], showGuids = False\<rparr>"

definition ex_start :: process where
  "ex_start = \<lparr>stdout = [], calls = []\<rparr>"

section \<open>Running programs\<close>

lemma bind_ret [simp]: "bind (ret x) f = f x"
  by (simp add: bind_def ret_def)

lemma bind_panic [simp]: "bind panic f = panic"
  by (simp add: bind_def panic_def)

lemma bind_os_Exit [simp]: "bind (os_Exit n) f = os_Exit n"
  by (simp add: bind_def os_Exit_def)

lemma bind_assoc: "bind (bind m f) g = bind m (\<lambda>x. bind (f x) g)"
  by (auto simp: bind_def fun_eq_iff split: prod.splits sum.splits)

lemma bind_Fail [simp]: "bind (Fail L err message) f = Fail L err message"
  by (simp add: Fail_def bind_assoc)

lemma bind_Warn [simp]: "bind (Warn L message) f = Warn L message"
  by (simp add: Warn_def bind_assoc)

lemma bind_record_call:
  "bind (record_call c) f st = f () (st\<lparr>calls := calls st @ [c]\<rparr>)"
  by (simp add: bind_def record_call_def)

lemma Fail_run:
  "Fail L err message st =
     (Inl (Exit 1), st\<lparr>stdout := stdout st @ failure_text L message err\<rparr>)"
  by (simp add: Fail_def bind_def print_def os_Exit_def failure_text_def)

lemma Warn_run:
  "Warn L message st = (Inl (Exit 0), st\<lparr>stdout := stdout st @ warning_text L message\<rparr>)"
  by (simp add: Warn_def bind_def print_def os_Exit_def warning_text_def)

lemma assert_string_if: "assert_string v = (if is_string v then ret (string_of v) else panic)"
  by (cases v) simp_all

lemma index0_case: "index0 xs = (case xs of [] \<Rightarrow> panic | x # _ \<Rightarrow> ret x)"
  by (cases xs) simp_all

lemma curl_Inr:
  "fetch L d endpoint = Inr r \<Longrightarrow>
   curl L d endpoint st = (Inr r, st\<lparr>calls := calls st @ [CallCurl endpoint]\<rparr>)"
  by (simp add: curl_def bind_def record_call_def ret_def)

lemma curl_Inl:
  "fetch L d endpoint = Inl err \<Longrightarrow>
   curl L d endpoint st =
     (Inl (Exit 1),
      st\<lparr>calls := calls st @ [CallCurl endpoint],
         stdout := stdout st @ failure_text L ''could not unmarshal response'' err\<rparr>)"
  by (simp add: curl_def bind_def record_call_def Fail_run)

lemma bind_curl_Inr:
  "fetch L d endpoint = Inr r \<Longrightarrow>
   bind (curl L d endpoint) f st = f r (st\<lparr>calls := calls st @ [CallCurl endpoint]\<rparr>)"
  by (simp add: curl_Inr bind_def)

section \<open>The loops on well-formed answers\<close>

lemma org_name_of_SomeD:
  assumes "org_name_of L d guid = Some n"
  obtains r r0 rs where "fetch L d (orgs_endpoint guid) = Inr r" "Resources r = r0 # rs"
    "is_string (index_map (EntityMap r0) ''name'')"
    "string_of (index_map (EntityMap r0) ''name'') = n"
  using assms
  by (auto simp: org_name_of_def split: sum.splits list.splits if_splits)

lemma getOrgs_loop_ok:
  "\<forall>s \<in> set spaces. org_name_of L d (Guid s) \<noteq> None \<Longrightarrow>
   getOrgs_loop L d spaces m st =
     (Inr (\<lambda>g. if g \<in> Guid ` set spaces then org_name_of L d g else m g),
      st\<lparr>calls := calls st @ map (\<lambda>s. CallCurl (orgs_endpoint (Guid s))) spaces\<rparr>)"
proof (induction spaces arbitrary: m st)
  case Nil
  show ?case by (simp add: ret_def)
next
  case (Cons s spaces)
  from Cons.prems obtain n where n: "org_name_of L d (Guid s) = Some n"
    by auto
  then obtain r r0 rs where r: "fetch L d (orgs_endpoint (Guid s)) = Inr r"
    "Resources r = r0 # rs" "is_string (index_map (EntityMap r0) ''name'')"
    "string_of (index_map (EntityMap r0) ''name'') = n"
    by (rule org_name_of_SomeD)
  have rest: "\<forall>s \<in> set spaces. org_name_of L d (Guid s) \<noteq> None"
    using Cons.prems by simp
  have step: "getOrgs_loop L d (s # spaces) m st =
      getOrgs_loop L d spaces (m(Guid s \<mapsto> n))
        (st\<lparr>calls := calls st @ [CallCurl (orgs_endpoint (Guid s))]\<rparr>)"
    using r by (simp add: bind_curl_Inr orgs_endpoint_def assert_string_if)
  show ?case
    unfolding step Cons.IH [OF rest]
    using n by (auto simp: fun_eq_iff)
qed

lemma getOrgs_ok:
  "\<forall>s \<in> set spaces. org_name_of L d (Guid s) \<noteq> None \<Longrightarrow>
   getOrgs L d spaces st =
     (Inr (spec_orgs L d spaces),
      st\<lparr>calls := calls st @ map (\<lambda>s. CallCurl (orgs_endpoint (Guid s))) spaces\<rparr>)"
proof -
  have "(\<lambda>g. if g \<in> Guid ` set spaces then org_name_of L d g else Map.empty g) =
      spec_orgs L d spaces"
    by (simp add: spec_orgs_def fun_eq_iff)
  then show "\<forall>s \<in> set spaces. org_name_of L d (Guid s) \<noteq> None \<Longrightarrow> ?thesis"
    unfolding getOrgs_def by (simp add: getOrgs_loop_ok)
qed

lemma instances_loop_ok:
  "list_all (instance_ok d) instances \<Longrightarrow>
   instances_loop L d spaces orgs instances response st =
     (Inr (response @ concat (map (instance_line L (showGuids d) spaces orgs) instances)), st)"
proof (induction instances arbitrary: response)
  case Nil
  show ?case by (simp add: ret_def)
next
  case (Cons i instances)
  from Cons.prems have i: "instance_ok d i" and rest: "list_all (instance_ok d) instances"
    by simp_all
  show ?case
    using i
    by (simp add: Cons.IH [OF rest] instance_ok_def assert_string_if Let_def
        instance_line_def instance_name_part_def)
qed

lemma plan_ok_listing:
  assumes "plan_ok L d p"
  obtains r where "is_string (index_map (EntityMap p) ''service_instances_url'')"
    "fetch L d (string_of (index_map (EntityMap p) ''service_instances_url'')) = Inr r"
    "plan_listing L d p = Some r"
  using assms
  by (auto simp: plan_ok_def plan_listing_def split: option.splits if_splits sum.splits)

lemma plans_loop_ok:
  "\<forall>p \<in> set plans. plan_ok L d p \<Longrightarrow>
   plans_loop L d spaces orgs plans response st =
     (Inr (response @
           concat (map (spec_plan_section L d (instance_line L (showGuids d) spaces orgs))
                     (filter (has_instances L d) plans))),
      st\<lparr>calls := calls st @
         map (\<lambda>p. CallCurl (string_of (index_map (EntityMap p) ''service_instances_url'')))
           plans\<rparr>)"
proof (induction plans arbitrary: response st)
  case Nil
  show ?case by (simp add: ret_def)
next
  case (Cons p plans)
  from Cons.prems have p: "plan_ok L d p" and rest: "\<forall>p \<in> set plans. plan_ok L d p"
    by simp_all
  let ?u = "string_of (index_map (EntityMap p) ''service_instances_url'')"
  let ?line = "instance_line L (showGuids d) spaces orgs"
  from p obtain r where u: "is_string (index_map (EntityMap p) ''service_instances_url'')"
    and r: "fetch L d ?u = Inr r" and l: "plan_listing L d p = Some r"
    by (rule plan_ok_listing)
  let ?st = "st\<lparr>calls := calls st @ [CallCurl ?u]\<rparr>"
  have step: "plans_loop L d spaces orgs (p # plans) response st =
      plans_loop L d spaces orgs plans
        (response @ concat (map (spec_plan_section L d ?line) (filter (has_instances L d) [p])))
        ?st"
  proof (cases "TotalResults r > 0")
    case True
    with p l have n: "is_string (index_map (EntityMap p) ''name'')"
      and insts: "list_all (instance_ok d) (Resources r)"
      by (simp_all add: plan_ok_def)
    have inner: "bind (instances_loop L d spaces orgs (Resources r) b) f s =
        f (b @ concat (map ?line (Resources r))) s" for b s and f :: "string \<Rightarrow> string prog"
      using instances_loop_ok [OF insts, of L spaces orgs b s] by (simp add: bind_def)
    show ?thesis
      using True u n
      by (simp add: assert_string_if bind_curl_Inr [OF r] inner spec_plan_section_def
          spec_plan_header_def has_instances_def listed_total_def listed_instances_def l)
  next
    case False
    then show ?thesis
      using u by (simp add: assert_string_if bind_curl_Inr [OF r] has_instances_def
          listed_total_def l)
  qed
  show ?case
    unfolding step Cons.IH [OF rest] by simp
qed

lemma DescribeBroker_report:
  assumes br: "fetch L d (brokers_endpoint L d) = Inr br" "TotalResults br \<noteq> 0"
      "Resources br = b0 # bs"
    and pr: "fetch L d (plans_endpoint L (index_map (Metadata b0) ''guid'')) = Inr pr"
      "TotalResults pr \<noteq> 0"
    and orgs: "\<forall>s \<in> set (GetSpaces (cliConnection d)). org_name_of L d (Guid s) \<noteq> None"
    and plans: "\<forall>p \<in> set (Resources pr). plan_ok L d p"
  shows "DescribeBroker L d st =
     (Inr (),
      \<lparr>stdout = stdout st @
         spec_report L d
           (instance_line L (showGuids d) (GetSpaces (cliConnection d))
              (spec_orgs L d (GetSpaces (cliConnection d))))
           (Resources pr),
       calls = calls st @ spec_calls L d (index_map (Metadata b0) ''guid'') (Resources pr)\<rparr>)"
proof -
  let ?g = "index_map (Metadata b0) ''guid''"
  let ?spaces = "GetSpaces (cliConnection d)"
  let ?orgs = "spec_orgs L d ?spaces"
  let ?line = "instance_line L (showGuids d) ?spaces ?orgs"
  have c1: "bind (curl L d (''/v2/service_brokers?q=name:'' @ url_QueryEscape L (brokerName d)))
      f st = f br (st\<lparr>calls := calls st @ [CallCurl (brokers_endpoint L d)]\<rparr>)"
    for f :: "CurlResponse \<Rightarrow> unit prog"
    using bind_curl_Inr [OF br(1), of f st] by (simp add: brokers_endpoint_def)
  have c2: "bind (curl L d (''/v2/service_plans?q=service_broker_guid:'' @ sprint_s L ?g)) f s =
      f pr (s\<lparr>calls := calls s @ [CallCurl (plans_endpoint L ?g)]\<rparr>)"
    for f :: "CurlResponse \<Rightarrow> unit prog" and s
    using bind_curl_Inr [OF pr(1), of f s] by (simp add: plans_endpoint_def)
  have c4: "bind (getOrgs L d ?spaces) f s =
      f ?orgs (s\<lparr>calls := calls s @ map (\<lambda>s. CallCurl (orgs_endpoint (Guid s))) ?spaces\<rparr>)"
    for s and f :: "(string \<rightharpoonup> string) \<Rightarrow> unit prog"
    using getOrgs_ok [OF orgs, of s] by (simp add: bind_def)
  have c5: "bind (plans_loop L d ?spaces ?orgs (Resources pr) response) f s =
      f (response @
         concat (map (spec_plan_section L d ?line) (filter (has_instances L d) (Resources pr))))
        (s\<lparr>calls := calls s @
           map (\<lambda>p. CallCurl (string_of (index_map (EntityMap p) ''service_instances_url'')))
             (Resources pr)\<rparr>)"
    for s response and f :: "string \<Rightarrow> unit prog"
    using plans_loop_ok [OF plans, of ?spaces ?orgs response s] by (simp add: bind_def)
  show ?thesis
    unfolding DescribeBroker_def
    apply (simp del: append.simps add: c1 br pr bind_record_call c2 Let_def c4 c5)
    apply (simp add: print_def spec_report_def spec_header_def spec_calls_def)
    done
qed

section \<open>What a run prints when it stops early\<close>

lemma quiet_ret: "quiet L d st (ret x st)"
  by (simp add: quiet_def ret_def)

lemma quiet_panic: "quiet L d st (panic st)"
  by (simp add: quiet_def panic_def)

lemma quiet_assert_string: "quiet L d st (assert_string v st)"
  by (simp add: assert_string_if quiet_ret quiet_panic)

lemma quiet_index0: "quiet L d st (index0 xs st)"
  by (cases xs) (simp_all add: quiet_ret quiet_panic)

lemma quiet_curl: "quiet L d st (curl L d endpoint st)"
proof (cases "fetch L d endpoint")
  case (Inl err)
  have "decode_failure L d (stdout st)
      (st\<lparr>calls := calls st @ [CallCurl endpoint],
          stdout := stdout st @ failure_text L ''could not unmarshal response'' err\<rparr>)"
    unfolding decode_failure_def using Inl by (intro exI [of _ endpoint] exI [of _ err]) simp
  then show ?thesis
    by (simp add: curl_Inl [OF Inl] quiet_def)
next
  case (Inr r)
  then show ?thesis
    by (simp add: curl_Inr quiet_def)
qed

lemma quiet_same_stdout:
  "stdout st1 = stdout st \<Longrightarrow> quiet L d st1 out \<Longrightarrow> quiet L d st out"
  by (simp add: quiet_def split: sum.splits abort.splits)

lemma quiet_bind:
  assumes "quiet L d st (m st)"
    and "\<And>x st1. m st = (Inr x, st1) \<Longrightarrow> quiet L d st1 (f x st1)"
  shows "quiet L d st (bind m f st)"
proof (cases "m st")
  case (Pair res st1)
  show ?thesis
  proof (cases res)
    case (Inl a)
    with Pair assms(1) show ?thesis by (simp add: bind_def quiet_def split: abort.splits)
  next
    case (Inr x)
    with Pair assms(1) have same: "stdout st1 = stdout st"
      by (simp add: quiet_def)
    from assms(2) Pair Inr have "quiet L d st1 (f x st1)"
      by simp
    with same have "quiet L d st (f x st1)"
      by (rule quiet_same_stdout)
    with Pair Inr show ?thesis by (simp add: bind_def)
  qed
qed

lemma quiet_getOrgs_loop: "quiet L d st (getOrgs_loop L d spaces m st)"
proof (induction spaces arbitrary: m st)
  case Nil
  show ?case by (simp add: quiet_ret)
next
  case (Cons s spaces)
  show ?case
    unfolding getOrgs_loop.simps
    by (intro quiet_bind quiet_curl quiet_index0 quiet_assert_string Cons.IH)
qed

lemma quiet_instances_loop:
  "quiet L d st (instances_loop L d spaces orgs instances response st)"
proof (induction instances arbitrary: response st)
  case Nil
  show ?case by (simp add: quiet_ret)
next
  case (Cons i instances)
  have guid: "quiet L d s
      ((if showGuids d
        then bind (assert_string (index_map (Metadata i) ''guid''))
               (\<lambda>guid. ret (b @ ''Guid: '' @ Entity L guid @ '' - ''))
        else ret b) s)" for s b
    by (simp add: quiet_ret quiet_bind quiet_assert_string del: append.simps)
  show ?case
    unfolding instances_loop.simps Let_def
    by (intro quiet_bind quiet_assert_string guid Cons.IH)
qed

lemma quiet_plans_loop: "quiet L d st (plans_loop L d spaces orgs plans response st)"
proof (induction plans arbitrary: response st)
  case Nil
  show ?case by (simp add: quiet_ret)
next
  case (Cons p plans)
  have inner: "quiet L d s
      ((if TotalResults r > 0
        then bind (assert_string (index_map (EntityMap p) ''name''))
               (\<lambda>name. instances_loop L d spaces orgs (Resources r)
                  (response @ ''Plan '' @ Entity L name @ '':\<newline>''))
        else ret response) s)" for s and r :: CurlResponse
    by (simp add: quiet_ret quiet_bind quiet_assert_string quiet_instances_loop
        del: append.simps)
  show ?case
    unfolding plans_loop.simps
    by (intro quiet_bind quiet_assert_string quiet_curl inner Cons.IH)
qed

lemma quiet_getOrgs: "quiet L d st (getOrgs L d spaces st)"
  by (simp add: getOrgs_def quiet_getOrgs_loop)

lemma broker_output_bind:
  assumes "quiet L d s (m s)" and "stdout s = out"
    and "\<And>x s1. m s = (Inr x, s1) \<Longrightarrow> stdout s1 = out \<Longrightarrow> broker_output_ok L d out (f x s1)"
  shows "broker_output_ok L d out (bind m f s)"
proof (cases "m s")
  case (Pair res s1)
  show ?thesis
  proof (cases res)
    case (Inl a)
    with Pair assms(1,2) show ?thesis
      by (auto simp: bind_def quiet_def broker_output_ok_def split: abort.splits)
  next
    case (Inr x)
    with Pair assms(1,2) have "stdout s1 = out"
      by (simp add: quiet_def)
    with assms(3) Pair Inr show ?thesis
      by (simp add: bind_def)
  qed
qed

lemma broker_output_curl:
  assumes "stdout s = out"
    and "\<And>r s1. stdout s1 = out \<Longrightarrow> broker_output_ok L d out (f r s1)"
  shows "broker_output_ok L d out (bind (curl L d endpoint) f s)"
  using assms by (intro broker_output_bind quiet_curl)

lemma broker_output_index0:
  assumes "stdout s = out"
    and "\<And>x s1. stdout s1 = out \<Longrightarrow> broker_output_ok L d out (f x s1)"
  shows "broker_output_ok L d out (bind (index0 xs) f s)"
  using assms by (intro broker_output_bind quiet_index0)

lemma broker_output_getOrgs:
  assumes "stdout s = out"
    and "\<And>orgs s1. stdout s1 = out \<Longrightarrow> broker_output_ok L d out (f orgs s1)"
  shows "broker_output_ok L d out (bind (getOrgs L d spaces) f s)"
  using assms by (intro broker_output_bind quiet_getOrgs)

lemma broker_output_plans_loop:
  assumes "stdout s = out"
    and "\<And>b s1. stdout s1 = out \<Longrightarrow> broker_output_ok L d out (f b s1)"
  shows "broker_output_ok L d out (bind (plans_loop L d spaces orgs plans response) f s)"
  using assms by (intro broker_output_bind quiet_plans_loop)

lemma broker_output_record_call:
  assumes "stdout s = out"
    and "\<And>s1. stdout s1 = out \<Longrightarrow> broker_output_ok L d out (f () s1)"
  shows "broker_output_ok L d out (bind (record_call c) f s)"
  using assms by (simp add: bind_record_call)

lemma broker_output_not_found:
  assumes "stdout s = out"
    and "\<And>s1. stdout s1 = out \<Longrightarrow> broker_output_ok L d out (f () s1)"
  shows "broker_output_ok L d out
     (bind (if c then Warn L (brokerName d @ '' not found'') else ret ()) f s)"
proof (cases c)
  case True
  with assms(1) show ?thesis by (simp add: Warn_run broker_output_ok_def)
next
  case False
  with assms show ?thesis by simp
qed

lemma broker_output_no_plans:
  assumes "stdout s = out"
    and "\<And>s1. stdout s1 = out \<Longrightarrow> broker_output_ok L d out (f () s1)"
  shows "broker_output_ok L d out
     (bind (if c then Warn L (brokerName d @ '' has no plans'') else ret ()) f s)"
proof (cases c)
  case True
  with assms(1) show ?thesis by (simp add: Warn_run broker_output_ok_def)
next
  case False
  with assms show ?thesis by simp
qed

lemma broker_output_print: "broker_output_ok L d out (print x s)"
  by (simp add: print_def broker_output_ok_def)

lemma broker_output_DescribeBroker: "broker_output_ok L d (stdout st) (DescribeBroker L d st)"
  unfolding DescribeBroker_def Let_def
  apply (rule broker_output_curl [OF refl])
  apply (rule broker_output_not_found, assumption)
  apply (rule broker_output_index0, assumption)
  apply (rule broker_output_record_call, assumption)
  apply (rule broker_output_curl, assumption)
  apply (rule broker_output_no_plans, assumption)
  apply (rule broker_output_record_call, assumption)
  apply (rule broker_output_getOrgs, assumption)
  apply (rule broker_output_plans_loop, assumption)
  apply (rule broker_output_print)
  done

section \<open>The answers of the small platform\<close>

lemmas ex_json_defs = json_none_def json_broker_b1_def json_broker_b2_def json_broker_b3_def
  json_broker_b4_def json_plans_bg1_def json_plans_bg3_def json_plans_bg4_def
  json_instances_p1_def json_org_acme_def json_org_globex_def html_bad_gateway_def

lemmas ex_fetch_defs = fetch_def ex_lib_def ex_conn_def ex_plugin_def ex_command_def
  ex_json_Unmarshal_def ex_json_defs

lemma ex_fetch_brokers:
  "fetch ex_lib (ex_plugin b g) ''/v2/service_brokers?q=name:b1'' =
     Inr \<lparr>TotalResults = 1, Resources = [ex_resource [(''guid'', ''bg1'')] [(''name'', ''b1'')]]\<rparr>"
  "fetch ex_lib (ex_plugin b g) ''/v2/service_brokers?q=name:b2'' =
     Inr \<lparr>TotalResults = 1, Resources = [ex_resource [(''guid'', ''bg2'')] [(''name'', ''b2'')]]\<rparr>"
  "fetch ex_lib (ex_plugin b g) ''/v2/service_brokers?q=name:b3'' =
     Inr \<lparr>TotalResults = 1, Resources = [ex_resource [(''guid'', ''bg3'')] [(''name'', ''b3'')]]\<rparr>"
  "fetch ex_lib (ex_plugin b g) ''/v2/service_brokers?q=name:b4'' =
     Inr \<lparr>TotalResults = 1, Resources = [ex_resource [(''guid'', ''bg4'')] [(''name'', ''b4'')]]\<rparr>"
  "fetch ex_lib (ex_plugin b g) ''/v2/service_brokers?q=name:nope'' =
     Inr \<lparr>TotalResults = 0, Resources = []\<rparr>"
  by (simp_all add: ex_fetch_defs)

lemma ex_fetch_plans:
  "fetch ex_lib (ex_plugin b g) ''/v2/service_plans?q=service_broker_guid:bg1'' =
     Inr \<lparr>TotalResults = 1, Resources = [ex_plan ''p1'' ''gold'']\<rparr>"
  "fetch ex_lib (ex_plugin b g) ''/v2/service_plans?q=service_broker_guid:bg2'' =
     Inr \<lparr>TotalResults = 0, Resources = []\<rparr>"
  "fetch ex_lib (ex_plugin b g) ''/v2/service_plans?q=service_broker_guid:bg3'' =
     Inr \<lparr>TotalResults = 2, Resources = [ex_plan ''p3'' ''silver'', ex_plan ''p4'' ''bronze'']\<rparr>"
  "fetch ex_lib (ex_plugin b g) ''/v2/service_plans?q=service_broker_guid:bg4'' =
     Inr \<lparr>TotalResults = 2, Resources = [ex_plan ''p1'' ''gold'', ex_plan ''p5'' ''lead'']\<rparr>"
  by (simp_all add: ex_fetch_defs)

lemma ex_fetch_instances:
  "fetch ex_lib (ex_plugin b g) ''/v2/service_plans/p1/service_instances'' =
     Inr \<lparr>TotalResults = 1,
          Resources = [ex_resource [(''guid'', ''i1'')]
                         [(''name'', ''db1''), (''space_guid'', ''s1'')]]\<rparr>"
  "fetch ex_lib (ex_plugin b g) ''/v2/service_plans/p3/service_instances'' =
     Inr \<lparr>TotalResults = 0, Resources = []\<rparr>"
  "fetch ex_lib (ex_plugin b g) ''/v2/service_plans/p4/service_instances'' =
     Inr \<lparr>TotalResults = 0, Resources = []\<rparr>"
  "fetch ex_lib (ex_plugin b g) ''/v2/service_plans/p5/service_instances'' =
     Inl ''invalid character '<' looking for beginning of value''"
  by (simp_all add: ex_fetch_defs)

lemma ex_fetch_orgs:
  "fetch ex_lib (ex_plugin b g) ''/v2/organizations?q=space_guid:s1'' =
     Inr \<lparr>TotalResults = 1, Resources = [ex_resource [(''guid'', ''o1'')] [(''name'', ''acme'')]]\<rparr>"
  "fetch ex_lib (ex_plugin b g) ''/v2/organizations?q=space_guid:s2'' =
     Inr \<lparr>TotalResults = 1,
          Resources = [ex_resource [(''guid'', ''o2'')] [(''name'', ''globex'')]]\<rparr>"
  "fetch ex_lib (ex_plugin b g) ''/v2/organizations?q=space_guid:s9'' =
     Inr \<lparr>TotalResults = 0, Resources = []\<rparr>"
  by (simp_all add: ex_fetch_defs)

lemmas ex_fetch = ex_fetch_brokers ex_fetch_plans ex_fetch_instances ex_fetch_orgs

lemma ex_org_name_of:
  "org_name_of ex_lib (ex_plugin b g) ''s1'' = Some ''acme''"
  "org_name_of ex_lib (ex_plugin b g) ''s2'' = Some ''globex''"
  "org_name_of ex_lib (ex_plugin b g) ''s9'' = None"
  by (simp_all add: org_name_of_def orgs_endpoint_def ex_fetch ex_resource_def index_map_def)

lemma ex_lib_simps [simp]:
  "url_QueryEscape ex_lib s = s" "Entity ex_lib s = s" "FailureColor ex_lib s = s"
  "warning_text ex_lib s = s" "flag_Parse ex_lib = ex_flag_Parse"
  by (simp_all add: ex_lib_def Entity_def warning_text_def)

lemma ex_plugin_simps [simp]:
  "brokerName (ex_plugin b g) = b" "showGuids (ex_plugin b g) = g"
  "serviceName (ex_plugin b g) = []"
  "GetSpaces (cliConnection (ex_plugin b g)) = ex_spaces"
  "Username (cliConnection (ex_plugin b g)) = ''admin''"
  by (simp_all add: ex_plugin_def ex_conn_def)

section \<open>\<open>getOrgs\<close> on answers without resources\<close>

lemma getOrgs_loop_Inr_D:
  "getOrgs_loop L d spaces m st = (Inr orgs, st') \<Longrightarrow>
   \<forall>s \<in> set spaces. org_name_of L d (Guid s) \<noteq> None"
proof (induction spaces arbitrary: m st)
  case Nil
  show ?case by simp
next
  case (Cons s spaces)
  from Cons.prems obtain m1 st1 where
    rest: "getOrgs_loop L d spaces m1 st1 = (Inr orgs, st')"
    and here: "org_name_of L d (Guid s) \<noteq> None"
    by (auto simp: curl_def bind_def record_call_def ret_def panic_def Fail_run
        assert_string_if index0_case org_name_of_def orgs_endpoint_def
        split: sum.splits list.splits if_splits prod.splits)
  from Cons.IH [OF rest] here show ?case by simp
qed

lemma getOrgs_loop_no_Exit:
  "\<forall>s \<in> set spaces. \<exists>r. fetch L d (orgs_endpoint (Guid s)) = Inr r \<Longrightarrow>
   fst (getOrgs_loop L d spaces m st) \<noteq> Inl (Exit n)"
proof (induction spaces arbitrary: m st)
  case Nil
  show ?case by (simp add: ret_def)
next
  case (Cons s spaces)
  from Cons.prems obtain r where r: "fetch L d (orgs_endpoint (Guid s)) = Inr r"
    by auto
  from Cons.prems have rest: "\<forall>s \<in> set spaces. \<exists>r. fetch L d (orgs_endpoint (Guid s)) = Inr r"
    by simp
  from r have step: "bind (curl L d (''/v2/organizations?q=space_guid:'' @ Guid s)) f st =
      f r (st\<lparr>calls := calls st @ [CallCurl (orgs_endpoint (Guid s))]\<rparr>)"
    for f :: "CurlResponse \<Rightarrow> (string \<rightharpoonup> string) prog"
    using bind_curl_Inr [of L d "orgs_endpoint (Guid s)" r f st]
    by (simp add: orgs_endpoint_def)
  show ?case
    unfolding getOrgs_loop.simps step
    using Cons.IH [OF rest]
    by (cases "Resources r") (simp_all add: assert_string_if, simp_all add: panic_def)
qed

section \<open>\<open>findSpace\<close> finds elements of the list\<close>

lemma findSpace_in_set:
  "findSpace spaces g \<in> set spaces \<or> findSpace spaces g = zero_GetSpaces_Model"
  by (induction spaces) auto

lemma findSpace_Guid_in_set:
  assumes "findSpace spaces g = s" and "Guid s \<noteq> []"
  shows "Guid s \<in> Guid ` set spaces"
  using findSpace_in_set [of spaces g] assms
  by (auto simp: zero_GetSpaces_Model_def)

section \<open>What the answers were when a run returns\<close>

lemma instances_loop_Inr_D:
  "instances_loop L d spaces orgs instances response st = (Inr b, st') \<Longrightarrow>
   list_all (instance_ok d) instances"
proof (induction instances arbitrary: response)
  case Nil
  show ?case by simp
next
  case (Cons i instances)
  from Cons.prems obtain b1 where
    rest: "instances_loop L d spaces orgs instances b1 st = (Inr b, st')"
    and here: "instance_ok d i"
    by (auto simp: Let_def assert_string_if bind_def ret_def panic_def instance_ok_def
        split: if_splits)
  from Cons.IH [OF rest] here show ?case by simp
qed

lemma plans_loop_Inr_D:
  "plans_loop L d spaces orgs plans response st = (Inr b, st') \<Longrightarrow>
   \<forall>p \<in> set plans. plan_ok L d p"
proof (induction plans arbitrary: response st)
  case Nil
  show ?case by simp
next
  case (Cons p plans)
  from Cons.prems obtain b1 st1 where
    rest: "plans_loop L d spaces orgs plans b1 st1 = (Inr b, st')"
    and here: "plan_ok L d p"
    by (auto simp: assert_string_if bind_def ret_def panic_def curl_def record_call_def
        Fail_run plan_ok_def plan_listing_def
        split: if_splits prod.splits sum.splits dest!: instances_loop_Inr_D)
  from Cons.IH [OF rest] here show ?case by simp
qed

lemma if_returns_bind:
  assumes "\<And>x s1. m s = (Inr x, s1) \<Longrightarrow> if_returns Q (f x s1)"
  shows "if_returns Q (bind m f s)"
proof (cases "m s")
  case (Pair res s1)
  with assms show ?thesis
    by (cases res) (simp_all add: bind_def if_returns_def)
qed

lemma if_returns_curl:
  assumes "\<And>r s1. fetch L d endpoint = Inr r \<Longrightarrow> if_returns Q (f r s1)"
  shows "if_returns Q (bind (curl L d endpoint) f s)"
proof (rule if_returns_bind)
  fix r s1
  assume "curl L d endpoint s = (Inr r, s1)"
  then have "fetch L d endpoint = Inr r"
    by (cases "fetch L d endpoint") (simp_all add: curl_Inl curl_Inr)
  then show "if_returns Q (f r s1)"
    by (rule assms)
qed

lemma if_returns_index0:
  assumes "\<And>x xs' s1. xs = x # xs' \<Longrightarrow> if_returns Q (f x s1)"
  shows "if_returns Q (bind (index0 xs) f s)"
  using assms by (cases xs) (simp_all, simp add: panic_def if_returns_def)

lemma if_returns_unless:
  assumes "\<And>s1. \<not> c \<Longrightarrow> if_returns Q (f () s1)"
  shows "if_returns Q (bind (if c then Warn L message else ret ()) f s)"
  using assms by (cases c) (simp_all add: Warn_run if_returns_def)

lemma if_returns_record_call:
  assumes "\<And>s1. if_returns Q (f () s1)"
  shows "if_returns Q (bind (record_call c) f s)"
  using assms by (simp add: bind_record_call)

lemma if_returns_getOrgs:
  assumes "\<And>orgs s1. \<forall>s \<in> set spaces. org_name_of L d (Guid s) \<noteq> None \<Longrightarrow>
      if_returns Q (f orgs s1)"
  shows "if_returns Q (bind (getOrgs L d spaces) f s)"
proof (rule if_returns_bind)
  fix orgs s1
  assume "getOrgs L d spaces s = (Inr orgs, s1)"
  then have "\<forall>s \<in> set spaces. org_name_of L d (Guid s) \<noteq> None"
    unfolding getOrgs_def by (rule getOrgs_loop_Inr_D)
  then show "if_returns Q (f orgs s1)"
    by (rule assms)
qed

lemma if_returns_plans_loop:
  assumes "\<And>b s1. \<forall>p \<in> set plans. plan_ok L d p \<Longrightarrow> if_returns Q (f b s1)"
  shows "if_returns Q (bind (plans_loop L d spaces orgs plans response) f s)"
proof (rule if_returns_bind)
  fix b s1
  assume "plans_loop L d spaces orgs plans response s = (Inr b, s1)"
  then have "\<forall>p \<in> set plans. plan_ok L d p"
    by (rule plans_loop_Inr_D)
  then show "if_returns Q (f b s1)"
    by (rule assms)
qed

lemma if_returns_print: "Q \<Longrightarrow> if_returns Q (print x s)"
  by (simp add: if_returns_def)

lemma DescribeBroker_returns_D:
  "if_returns (\<exists>br b0 pr. report_ok L d br b0 pr) (DescribeBroker L d st)"
  unfolding DescribeBroker_def Let_def
  apply (rule if_returns_curl)
  apply (rule if_returns_unless)
  apply (rule if_returns_index0)
  apply (rule if_returns_record_call)
  apply (rule if_returns_curl)
  apply (rule if_returns_unless)
  apply (rule if_returns_record_call)
  apply (rule if_returns_getOrgs)
  apply (rule if_returns_plans_loop)
  apply (rule if_returns_print)
  apply (simp (no_asm_simp) add: report_ok_def brokers_endpoint_def plans_endpoint_def
      del: append.simps)
  done

section \<open>Runs of the program on the small platform\<close>

lemmas ex_run_defs = DescribeBroker_def getOrgs_def bind_assoc bind_curl_Inr bind_record_call Let_def
  ex_fetch index_map_def ex_resource_def ex_plan_def ex_spaces_def ex_start_def

lemma ex_run_b1:
  "DescribeBroker ex_lib (ex_plugin ''b1'' False) ex_start =
     (Inr (),
      \<lparr>stdout = ''Describing broker b1 as visible by admin\<newline>\<newline>Plan gold:\<newline>  Name: db1 - Org: acme - Space: dev\<newline>\<newline>'',
       calls = [CallCurl ''/v2/service_brokers?q=name:b1'', CallUsername,
                CallCurl ''/v2/service_plans?q=service_broker_guid:bg1'', CallGetSpaces,
                CallCurl ''/v2/organizations?q=space_guid:s1'',
                CallCurl ''/v2/organizations?q=space_guid:s2'',
                CallCurl ''/v2/service_plans/p1/service_instances'']\<rparr>)"
  by (simp add: ex_run_defs) (simp add: print_def bind_def ret_def index_orgs_def)

lemma ex_run_b4:
  "DescribeBroker ex_lib (ex_plugin ''b4'' False) ex_start =
     (Inl (Exit 1),
      \<lparr>stdout = ''FAILED: could not unmarshal response. Error: invalid character '<' looking for beginning of value'',
       calls = [CallCurl ''/v2/service_brokers?q=name:b4'', CallUsername,
                CallCurl ''/v2/service_plans?q=service_broker_guid:bg4'', CallGetSpaces,
                CallCurl ''/v2/organizations?q=space_guid:s1'',
                CallCurl ''/v2/organizations?q=space_guid:s2'',
                CallCurl ''/v2/service_plans/p1/service_instances'',
                CallCurl ''/v2/service_plans/p5/service_instances'']\<rparr>)"
  by (simp add: ex_run_defs) (simp add: curl_Inl ex_fetch bind_def failure_text_def)

lemma ex_plan_ok:
  "plan_ok ex_lib (ex_plugin b g) (ex_plan ''p1'' ''gold'')"
  "plan_ok ex_lib (ex_plugin b g) (ex_plan ''p3'' ''silver'')"
  "plan_ok ex_lib (ex_plugin b g) (ex_plan ''p4'' ''bronze'')"
  by (simp_all add: plan_ok_def plan_listing_def instance_ok_def ex_plan_def ex_resource_def
      index_map_def ex_fetch)

lemma ex_listing:
  "plan_listing ex_lib (ex_plugin b g) (ex_plan ''p1'' ''gold'') =
     Some \<lparr>TotalResults = 1,
           Resources = [ex_resource [(''guid'', ''i1'')]
                          [(''name'', ''db1''), (''space_guid'', ''s1'')]]\<rparr>"
  "plan_listing ex_lib (ex_plugin b g) (ex_plan ''p3'' ''silver'') =
     Some \<lparr>TotalResults = 0, Resources = []\<rparr>"
  "plan_listing ex_lib (ex_plugin b g) (ex_plan ''p4'' ''bronze'') =
     Some \<lparr>TotalResults = 0, Resources = []\<rparr>"
  by (simp_all add: plan_listing_def ex_plan_def ex_resource_def index_map_def ex_fetch)

lemma ex_orgs_ok:
  "\<forall>s \<in> set (GetSpaces (cliConnection (ex_plugin b g))).
     org_name_of ex_lib (ex_plugin b g) (Guid s) \<noteq> None"
  by (simp add: ex_spaces_def ex_org_name_of)

text \<open>The brokers \<open>b1\<close> and \<open>b3\<close> are found, have plans, and all that the report needs.\<close>

lemma ex_b1_found:
  "fetch ex_lib (ex_plugin ''b1'' g) (brokers_endpoint ex_lib (ex_plugin ''b1'' g)) =
     Inr \<lparr>TotalResults = 1, Resources = [ex_resource [(''guid'', ''bg1'')] [(''name'', ''b1'')]]\<rparr>"
  "TotalResults \<lparr>TotalResults = 1,
     Resources = [ex_resource [(''guid'', ''bg1'')] [(''name'', ''b1'')]]\<rparr> \<noteq> 0"
  "Resources \<lparr>TotalResults = 1,
     Resources = [ex_resource [(''guid'', ''bg1'')] [(''name'', ''b1'')]]\<rparr> =
   ex_resource [(''guid'', ''bg1'')] [(''name'', ''b1'')] # []"
  "fetch ex_lib (ex_plugin ''b1'' g)
     (plans_endpoint ex_lib
        (index_map (Metadata (ex_resource [(''guid'', ''bg1'')] [(''name'', ''b1'')])) ''guid'')) =
     Inr \<lparr>TotalResults = 1, Resources = [ex_plan ''p1'' ''gold'']\<rparr>"
  "TotalResults \<lparr>TotalResults = 1, Resources = [ex_plan ''p1'' ''gold'']\<rparr> \<noteq> 0"
  "\<forall>s \<in> set (GetSpaces (cliConnection (ex_plugin ''b1'' g))).
     org_name_of ex_lib (ex_plugin ''b1'' g) (Guid s) \<noteq> None"
  "\<forall>p \<in> set (Resources \<lparr>TotalResults = 1, Resources = [ex_plan ''p1'' ''gold'']\<rparr>).
     plan_ok ex_lib (ex_plugin ''b1'' g) p"
  by (simp_all add: brokers_endpoint_def plans_endpoint_def ex_fetch ex_orgs_ok ex_plan_ok)
    (simp add: ex_resource_def index_map_def ex_fetch)

lemma ex_b3_found:
  "fetch ex_lib (ex_plugin ''b3'' g) (brokers_endpoint ex_lib (ex_plugin ''b3'' g)) =
     Inr \<lparr>TotalResults = 1, Resources = [ex_resource [(''guid'', ''bg3'')] [(''name'', ''b3'')]]\<rparr>"
  "TotalResults \<lparr>TotalResults = 1,
     Resources = [ex_resource [(''guid'', ''bg3'')] [(''name'', ''b3'')]]\<rparr> \<noteq> 0"
  "Resources \<lparr>TotalResults = 1,
     Resources = [ex_resource [(''guid'', ''bg3'')] [(''name'', ''b3'')]]\<rparr> =
   ex_resource [(''guid'', ''bg3'')] [(''name'', ''b3'')] # []"
  "fetch ex_lib (ex_plugin ''b3'' g)
     (plans_endpoint ex_lib
        (index_map (Metadata (ex_resource [(''guid'', ''bg3'')] [(''name'', ''b3'')])) ''guid'')) =
     Inr \<lparr>TotalResults = 2, Resources = [ex_plan ''p3'' ''silver'', ex_plan ''p4'' ''bronze'']\<rparr>"
  "TotalResults \<lparr>TotalResults = 2,
     Resources = [ex_plan ''p3'' ''silver'', ex_plan ''p4'' ''bronze'']\<rparr> \<noteq> 0"
  "\<forall>s \<in> set (GetSpaces (cliConnection (ex_plugin ''b3'' g))).
     org_name_of ex_lib (ex_plugin ''b3'' g) (Guid s) \<noteq> None"
  "\<forall>p \<in> set (Resources \<lparr>TotalResults = 2,
       Resources = [ex_plan ''p3'' ''silver'', ex_plan ''p4'' ''bronze'']\<rparr>).
     plan_ok ex_lib (ex_plugin ''b3'' g) p"
  by (simp_all add: brokers_endpoint_def plans_endpoint_def ex_fetch ex_orgs_ok ex_plan_ok)
    (simp add: ex_resource_def index_map_def ex_fetch)

text \<open>The parts of the two reports.\<close>

lemmas ex_report_defs = listed_total_def listed_instances_def ex_listing spec_header_def
  ex_start_def

lemmas ex_line_defs = spec_plan_header_def instance_line_def instance_name_part_def
  spec_orgs_def ex_org_name_of index_orgs_def ex_spaces_def ex_plan_def ex_resource_def
  index_map_def

section \<open>The claims\<close>

subsection \<open>\<open>findSpace\<close>\<close>

text \<open>
  C9. For every list of spaces and every guid, \<open>findSpace\<close> returns the first element of
  the list whose \<open>Guid\<close> is the given one: the element at the least index where the guids
  agree. When no element has the guid, it returns the zero value of the space model, and
  there is no error to signal: the function has no other result.
\<close>

theorem findSpace_first_match:
  "(\<exists>i < length spaces. Guid (spaces ! i) = g \<and> (\<forall>j < i. Guid (spaces ! j) \<noteq> g) \<and>
       findSpace spaces g = spaces ! i) \<or>
   ((\<forall>s \<in> set spaces. Guid s \<noteq> g) \<and> findSpace spaces g = zero_GetSpaces_Model)"
proof (induction spaces)
  case Nil
  show ?case by simp
next
  case (Cons s spaces)
  show ?case
  proof (cases "Guid s = g")
    case True
    then have "0 < length (s # spaces) \<and> Guid ((s # spaces) ! 0) = g \<and>
        (\<forall>j < 0. Guid ((s # spaces) ! j) \<noteq> g) \<and> findSpace (s # spaces) g = (s # spaces) ! 0"
      by simp
    then show ?thesis by blast
  next
    case False
    from Cons.IH show ?thesis
    proof
      assume "\<exists>i < length spaces. Guid (spaces ! i) = g \<and> (\<forall>j < i. Guid (spaces ! j) \<noteq> g) \<and>
          findSpace spaces g = spaces ! i"
      then obtain i where i: "i < length spaces" "Guid (spaces ! i) = g"
        "\<forall>j < i. Guid (spaces ! j) \<noteq> g" "findSpace spaces g = spaces ! i"
        by blast
      have "\<forall>j < Suc i. Guid ((s # spaces) ! j) \<noteq> g"
        using False i(3) by (auto simp: less_Suc_eq_0_disj)
      with i False have "Suc i < length (s # spaces) \<and> Guid ((s # spaces) ! Suc i) = g \<and>
          (\<forall>j < Suc i. Guid ((s # spaces) ! j) \<noteq> g) \<and>
          findSpace (s # spaces) g = (s # spaces) ! Suc i"
        by simp
      then show ?thesis by blast
    next
      assume "(\<forall>s \<in> set spaces. Guid s \<noteq> g) \<and> findSpace spaces g = zero_GetSpaces_Model"
      with False show ?thesis by simp
    qed
  qed
qed

text \<open>
  On the spaces \<open>dev\<close> (\<open>s1\<close>), \<open>prod\<close> (\<open>s2\<close>) and a second space with guid \<open>s2\<close>, the guid
  \<open>s2\<close> finds \<open>prod\<close>, at index 1, and the guid \<open>s7\<close> finds the zero value.
\<close>

theorem findSpace_first_match_witness:
  "findSpace (ex_spaces @ [\<lparr>Guid = ''s2'', Name = ''twin''\<rparr>]) ''s2'' =
     \<lparr>Guid = ''s2'', Name = ''prod''\<rparr> \<and>
   findSpace (ex_spaces @ [\<lparr>Guid = ''s2'', Name = ''twin''\<rparr>]) ''s7'' = zero_GetSpaces_Model"
  using findSpace_first_match [of "ex_spaces @ [\<lparr>Guid = ''s2'', Name = ''twin''\<rparr>]" "''s2''"]
    findSpace_first_match [of "ex_spaces @ [\<lparr>Guid = ''s2'', Name = ''twin''\<rparr>]" "''s7''"]
  by (simp add: ex_spaces_def)

subsection \<open>\<open>DescribeService\<close>\<close>

text \<open>
  C8. For every input, \<open>DescribeService\<close> returns normally and leaves the process as it
  found it: it prints nothing and calls nothing.
\<close>

theorem DescribeService_silent: "DescribeService L d st = (Inr (), st)"
  by (simp add: DescribeService_def ret_def)

subsection \<open>\<open>Run\<close> and the flags\<close>

text \<open>
  C4. For every argument vector whose first element is \<open>describe\<close> and whose other
  elements the flag parser rejects, \<open>Run\<close> ends the process with exit code 1, has printed
  the failure message and has made no call on the connection.
\<close>

theorem Run_flag_error_exits_1:
  assumes "flag_Parse L rest = Inl err"
  shows "Run L d conn (''describe'' # rest) st =
     (Inl (Exit 1),
      \<lparr>stdout = stdout st @ failure_text L ''cannot parse flags'' err, calls = calls st\<rparr>)"
  using assms by (simp add: Run_def ParseFlags_def Let_def) (simp add: Fail_run)

text \<open>The unknown flag \<open>-x\<close>, on a new process.\<close>

theorem Run_flag_error_exits_1_witness:
  "Run ex_lib new_DescribePlugin ex_conn [''describe'', ''-x''] ex_start =
     (Inl (Exit 1),
      \<lparr>stdout = ''FAILED: cannot parse flags. Error: flag provided but not defined: -x'',
       calls = []\<rparr>)"
proof -
  have "flag_Parse ex_lib [''-x''] = Inl ''flag provided but not defined: -x''"
    by (simp add: ex_flag_Parse_def)
  from Run_flag_error_exits_1 [OF this, of new_DescribePlugin ex_conn ex_start]
  show ?thesis by (simp add: failure_text_def ex_start_def)
qed

text \<open>
  C5. For every argument vector whose first element is \<open>describe\<close> and whose flags parse
  with both \<open>-b\<close> and \<open>-s\<close> empty, \<open>Run\<close> returns with the process as it found it: no call
  on the connection and nothing printed. The receiver holds the connection and the parsed
  flags.
\<close>

theorem Run_no_flags_silent:
  assumes "flag_Parse L rest = Inr ([], [], g)"
  shows "Run L d conn (''describe'' # rest) st =
     (Inr (d\<lparr>cliConnection := conn, brokerName := [], serviceName := [], showGuids := g\<rparr>),
      st)"
  using assms by (simp add: Run_def ParseFlags_def Let_def) (simp add: ret_def)

text \<open>The argument vector \<open>describe\<close> alone, and \<open>describe -show-guids\<close>.\<close>

theorem Run_no_flags_silent_witness:
  "Run ex_lib new_DescribePlugin ex_conn [''describe''] ex_start =
     (Inr (new_DescribePlugin\<lparr>cliConnection := ex_conn\<rparr>), \<lparr>stdout = [], calls = []\<rparr>) \<and>
   snd (Run ex_lib new_DescribePlugin ex_conn [''describe'', ''-show-guids''] ex_start) =
     \<lparr>stdout = [], calls = []\<rparr>"
proof -
  have "flag_Parse ex_lib [] = Inr ([], [], False)"
    and "flag_Parse ex_lib [''-show-guids''] = Inr ([], [], True)"
    by (simp_all add: ex_flag_Parse_def)
  from Run_no_flags_silent [OF this(1), of new_DescribePlugin ex_conn ex_start]
    Run_no_flags_silent [OF this(2), of new_DescribePlugin ex_conn ex_start]
  show ?thesis by (simp add: ex_start_def new_DescribePlugin_def)
qed

subsection \<open>Nothing to show\<close>

text \<open>
  C2. For every run of \<open>DescribeBroker\<close>: when the broker query answers with a result
  count of zero, or when it answers with a broker and the plan query for that broker
  answers with a result count of zero, the run prints a warning and ends the process with
  exit code 0. The warning is all it prints, so there is no report, and the query with
  the count of zero is its last call on the connection.
\<close>

theorem DescribeBroker_not_found_exits_0:
  "(fetch L d (brokers_endpoint L d) = Inr br \<and> TotalResults br = 0 \<longrightarrow>
      DescribeBroker L d st =
        (Inl (Exit 0),
         \<lparr>stdout = stdout st @ warning_text L (brokerName d @ '' not found''),
          calls = calls st @ [CallCurl (brokers_endpoint L d)]\<rparr>)) \<and>
   (fetch L d (brokers_endpoint L d) = Inr br \<and> TotalResults br \<noteq> 0 \<and>
    Resources br = b0 # bs \<and>
    fetch L d (plans_endpoint L (index_map (Metadata b0) ''guid'')) = Inr pr \<and>
    TotalResults pr = 0 \<longrightarrow>
      DescribeBroker L d st =
        (Inl (Exit 0),
         \<lparr>stdout = stdout st @ warning_text L (brokerName d @ '' has no plans''),
          calls = calls st @
            [CallCurl (brokers_endpoint L d), CallUsername,
             CallCurl (plans_endpoint L (index_map (Metadata b0) ''guid''))]\<rparr>))"
proof (intro conjI impI)
  assume a: "fetch L d (brokers_endpoint L d) = Inr br \<and> TotalResults br = 0"
  then have c1: "fetch L d (''/v2/service_brokers?q=name:'' @ url_QueryEscape L (brokerName d)) =
      Inr br"
    by (simp add: brokers_endpoint_def)
  from a show "DescribeBroker L d st =
      (Inl (Exit 0),
       \<lparr>stdout = stdout st @ warning_text L (brokerName d @ '' not found''),
        calls = calls st @ [CallCurl (brokers_endpoint L d)]\<rparr>)"
    unfolding DescribeBroker_def
    by (simp del: append.simps add: bind_curl_Inr [OF c1])
      (simp add: Warn_run brokers_endpoint_def)
next
  let ?g = "index_map (Metadata b0) ''guid''"
  assume a: "fetch L d (brokers_endpoint L d) = Inr br \<and> TotalResults br \<noteq> 0 \<and>
    Resources br = b0 # bs \<and> fetch L d (plans_endpoint L ?g) = Inr pr \<and> TotalResults pr = 0"
  then have c1: "fetch L d (''/v2/service_brokers?q=name:'' @ url_QueryEscape L (brokerName d)) =
      Inr br"
    and c2: "fetch L d (''/v2/service_plans?q=service_broker_guid:'' @ sprint_s L ?g) = Inr pr"
    by (simp_all add: brokers_endpoint_def plans_endpoint_def)
  from a show "DescribeBroker L d st =
      (Inl (Exit 0),
       \<lparr>stdout = stdout st @ warning_text L (brokerName d @ '' has no plans''),
        calls = calls st @
          [CallCurl (brokers_endpoint L d), CallUsername, CallCurl (plans_endpoint L ?g)]\<rparr>)"
    unfolding DescribeBroker_def
    by (simp del: append.simps
        add: bind_curl_Inr [OF c1] bind_curl_Inr [OF c2] bind_record_call Let_def)
      (simp add: Warn_run brokers_endpoint_def plans_endpoint_def)
qed

text \<open>On the small platform: the broker \<open>nope\<close> is not there, the broker \<open>b2\<close> has no plans.\<close>

theorem DescribeBroker_not_found_exits_0_witness:
  "DescribeBroker ex_lib (ex_plugin ''nope'' False) ex_start =
     (Inl (Exit 0),
      \<lparr>stdout = ''nope not found'', calls = [CallCurl ''/v2/service_brokers?q=name:nope'']\<rparr>) \<and>
   DescribeBroker ex_lib (ex_plugin ''b2'' False) ex_start =
     (Inl (Exit 0),
      \<lparr>stdout = ''b2 has no plans'',
       calls = [CallCurl ''/v2/service_brokers?q=name:b2'', CallUsername,
                CallCurl ''/v2/service_plans?q=service_broker_guid:bg2'']\<rparr>)"
  using DescribeBroker_not_found_exits_0
      [where L = ex_lib and d = "ex_plugin ''nope'' False" and st = ex_start
         and br = "\<lparr>TotalResults = 0, Resources = []\<rparr>"]
    DescribeBroker_not_found_exits_0
      [where L = ex_lib and d = "ex_plugin ''b2'' False" and st = ex_start
         and br = "\<lparr>TotalResults = 1,
                    Resources = [ex_resource [(''guid'', ''bg2'')] [(''name'', ''b2'')]]\<rparr>"
         and ?b0.0 = "ex_resource [(''guid'', ''bg2'')] [(''name'', ''b2'')]" and bs = "[]"
         and pr = "\<lparr>TotalResults = 0, Resources = []\<rparr>"]
  by (simp add: brokers_endpoint_def plans_endpoint_def ex_fetch ex_resource_def index_map_def
      ex_start_def)

subsection \<open>\<open>getOrgs\<close>\<close>

text \<open>
  C10. \<open>getOrgs\<close> reads the first resource of the answer to each organizations query
  and does not check that there is one.
  \<^item> When every space of the list has an answer with a first resource that names the
    organization, \<open>getOrgs\<close> returns a map whose keys are the guids of the list and that
    sends each guid to that name.
  \<^item> It returns only then: when it returns, every answer had a resource.
  \<^item> When all answers decode and one of them has no resource, \<open>getOrgs\<close> panics.
\<close>

theorem getOrgs_needs_first_resource:
  "((\<forall>s \<in> set spaces. org_name_of L d (Guid s) \<noteq> None) \<longrightarrow>
      (\<exists>orgs. fst (getOrgs L d spaces st) = Inr orgs \<and> dom orgs = Guid ` set spaces \<and>
              (\<forall>s \<in> set spaces. orgs (Guid s) = org_name_of L d (Guid s)))) \<and>
   ((\<exists>orgs. fst (getOrgs L d spaces st) = Inr orgs) \<longrightarrow>
      (\<forall>s \<in> set spaces. \<exists>r. fetch L d (orgs_endpoint (Guid s)) = Inr r \<and> Resources r \<noteq> [])) \<and>
   ((\<forall>s \<in> set spaces. \<exists>r. fetch L d (orgs_endpoint (Guid s)) = Inr r) \<and>
    (\<exists>s \<in> set spaces. \<exists>r. fetch L d (orgs_endpoint (Guid s)) = Inr r \<and> Resources r = []) \<longrightarrow>
      fst (getOrgs L d spaces st) = Inl Panic)"
proof (intro conjI impI)
  assume ok: "\<forall>s \<in> set spaces. org_name_of L d (Guid s) \<noteq> None"
  have "dom (spec_orgs L d spaces) = Guid ` set spaces"
    using ok by (auto simp: spec_orgs_def dom_def)
  moreover have "\<forall>s \<in> set spaces. spec_orgs L d spaces (Guid s) = org_name_of L d (Guid s)"
    by (simp add: spec_orgs_def)
  ultimately show "\<exists>orgs. fst (getOrgs L d spaces st) = Inr orgs \<and>
      dom orgs = Guid ` set spaces \<and>
      (\<forall>s \<in> set spaces. orgs (Guid s) = org_name_of L d (Guid s))"
    using getOrgs_ok [OF ok, of st] by simp
next
  assume "\<exists>orgs. fst (getOrgs L d spaces st) = Inr orgs"
  then obtain orgs st' where "getOrgs_loop L d spaces Map.empty st = (Inr orgs, st')"
    by (cases "getOrgs L d spaces st") (auto simp: getOrgs_def)
  then have "\<forall>s \<in> set spaces. org_name_of L d (Guid s) \<noteq> None"
    by (rule getOrgs_loop_Inr_D)
  then have named: "\<forall>s \<in> set spaces. \<exists>n. org_name_of L d (Guid s) = Some n"
    by simp
  show "\<forall>s \<in> set spaces. \<exists>r. fetch L d (orgs_endpoint (Guid s)) = Inr r \<and> Resources r \<noteq> []"
  proof
    fix s
    assume "s \<in> set spaces"
    with named obtain n where "org_name_of L d (Guid s) = Some n"
      by blast
    then obtain r r0 rs where "fetch L d (orgs_endpoint (Guid s)) = Inr r" "Resources r = r0 # rs"
      by (rule org_name_of_SomeD)
    then show "\<exists>r. fetch L d (orgs_endpoint (Guid s)) = Inr r \<and> Resources r \<noteq> []"
      by simp
  qed
next
  assume a: "(\<forall>s \<in> set spaces. \<exists>r. fetch L d (orgs_endpoint (Guid s)) = Inr r) \<and>
    (\<exists>s \<in> set spaces. \<exists>r. fetch L d (orgs_endpoint (Guid s)) = Inr r \<and> Resources r = [])"
  then obtain s r where "s \<in> set spaces" "fetch L d (orgs_endpoint (Guid s)) = Inr r"
    "Resources r = []"
    by blast
  then have "s \<in> set spaces \<and> org_name_of L d (Guid s) = None"
    by (simp add: org_name_of_def)
  then have none: "\<exists>s \<in> set spaces. org_name_of L d (Guid s) = None"
    by blast
  have no_Inr: "fst (getOrgs_loop L d spaces Map.empty st) \<noteq> Inr orgs" for orgs
  proof
    assume "fst (getOrgs_loop L d spaces Map.empty st) = Inr orgs"
    then have "getOrgs_loop L d spaces Map.empty st =
        (Inr orgs, snd (getOrgs_loop L d spaces Map.empty st))"
      by (cases "getOrgs_loop L d spaces Map.empty st") simp
    from getOrgs_loop_Inr_D [OF this] none show False by blast
  qed
  have no_Exit: "fst (getOrgs_loop L d spaces Map.empty st) \<noteq> Inl (Exit n)" for n
    using a by (intro getOrgs_loop_no_Exit) simp
  have "fst (getOrgs_loop L d spaces Map.empty st) = Inl Panic"
  proof (cases "fst (getOrgs_loop L d spaces Map.empty st)")
    case (Inl stop)
    with no_Exit show ?thesis by (cases stop) auto
  next
    case (Inr orgs)
    with no_Inr show ?thesis by blast
  qed
  then show "fst (getOrgs L d spaces st) = Inl Panic"
    by (simp add: getOrgs_def)
qed

text \<open>
  On the small platform the two spaces have their organizations, and a space with guid
  \<open>s9\<close>, for which the organizations query has no result, makes \<open>getOrgs\<close> panic.
\<close>

theorem getOrgs_needs_first_resource_witness:
  "(\<exists>orgs. fst (getOrgs ex_lib (ex_plugin ''b1'' False) ex_spaces ex_start) = Inr orgs \<and>
      dom orgs = {''s1'', ''s2''} \<and> orgs ''s1'' = Some ''acme'' \<and> orgs ''s2'' = Some ''globex'') \<and>
   fst (getOrgs ex_lib (ex_plugin ''b1'' False)
          (ex_spaces @ [\<lparr>Guid = ''s9'', Name = ''lost''\<rparr>]) ex_start) = Inl Panic"
  using getOrgs_needs_first_resource [of ex_spaces ex_lib "ex_plugin ''b1'' False" ex_start]
    getOrgs_needs_first_resource
      [of "ex_spaces @ [\<lparr>Guid = ''s9'', Name = ''lost''\<rparr>]" ex_lib "ex_plugin ''b1'' False"
          ex_start]
  by (simp add: ex_spaces_def ex_org_name_of orgs_endpoint_def ex_fetch)

subsection \<open>Runs that stop early\<close>

text \<open>
  C3. For every run of \<open>DescribeBroker\<close>, whatever the answers of the platform are:
  \<^item> A run that exits with code 1 has as its last call a \<open>curl\<close> whose answer did not decode,
    and it has printed the failure message with the error of that decoding and nothing
    else: nothing of the buffer.
  \<^item> A run that exits with code 0 has printed one of the two warnings and nothing else.
  \<^item> A run that panics has printed nothing.
  \<^item> A run that returns has printed the buffer once, with a line end: the answers were
    well formed, and the output is the report for them, which starts with the two header
    lines.
\<close>

theorem DescribeBroker_abort_prints_no_report:
  assumes "DescribeBroker L d st = (res, st')"
  shows "case res of
      Inr _ \<Rightarrow>
        (\<exists>br b0 pr. report_ok L d br b0 pr \<and>
           stdout st' =
             stdout st @
             spec_report L d
               (instance_line L (showGuids d) (GetSpaces (cliConnection d))
                  (spec_orgs L d (GetSpaces (cliConnection d))))
               (Resources pr))
    | Inl Panic \<Rightarrow> stdout st' = stdout st
    | Inl (Exit n) \<Rightarrow>
        (n = 0 \<and>
         (stdout st' = stdout st @ warning_text L (brokerName d @ '' not found'') \<or>
          stdout st' = stdout st @ warning_text L (brokerName d @ '' has no plans''))) \<or>
        (n = 1 \<and>
         (\<exists>endpoint err.
            calls st' \<noteq> [] \<and> last (calls st') = CallCurl endpoint \<and>
            fetch L d endpoint = Inl err \<and>
            stdout st' = stdout st @ failure_text L ''could not unmarshal response'' err))"
proof (cases res)
  case (Inl stop)
  with broker_output_DescribeBroker [of L d st] assms show ?thesis
    by (simp add: broker_output_ok_def decode_failure_def split: abort.splits)
next
  case (Inr u)
  with DescribeBroker_returns_D [of L d st] assms
  obtain br b0 pr where ok: "report_ok L d br b0 pr"
    by (auto simp: if_returns_def)
  then obtain bs where "Resources br = b0 # bs"
    by (auto simp: report_ok_def)
  with ok have "DescribeBroker L d st =
     (Inr (),
      \<lparr>stdout = stdout st @
         spec_report L d
           (instance_line L (showGuids d) (GetSpaces (cliConnection d))
              (spec_orgs L d (GetSpaces (cliConnection d))))
           (Resources pr),
       calls = calls st @ spec_calls L d (index_map (Metadata b0) ''guid'') (Resources pr)\<rparr>)"
    by (intro DescribeBroker_report) (simp_all add: report_ok_def)
  with assms have "stdout st' =
      stdout st @
      spec_report L d
        (instance_line L (showGuids d) (GetSpaces (cliConnection d))
           (spec_orgs L d (GetSpaces (cliConnection d))))
        (Resources pr)"
    by auto
  with ok Inr show ?thesis
    by auto
qed

text \<open>
  The broker \<open>b4\<close>: the header and the section of its first plan are in the buffer when
  the listing of its second plan, the last call, fails to decode. The failure message
  with the error of the decoder is all that is printed.
\<close>

theorem DescribeBroker_abort_prints_no_report_witness:
  "DescribeBroker ex_lib (ex_plugin ''b4'' False) ex_start =
     (Inl (Exit 1),
      \<lparr>stdout = ''FAILED: could not unmarshal response. Error: invalid character '<' looking for beginning of value'',
       calls = [CallCurl ''/v2/service_brokers?q=name:b4'', CallUsername,
                CallCurl ''/v2/service_plans?q=service_broker_guid:bg4'', CallGetSpaces,
                CallCurl ''/v2/organizations?q=space_guid:s1'',
                CallCurl ''/v2/organizations?q=space_guid:s2'',
                CallCurl ''/v2/service_plans/p1/service_instances'',
                CallCurl ''/v2/service_plans/p5/service_instances'']\<rparr>) \<and>
   fetch ex_lib (ex_plugin ''b4'' False) ''/v2/service_plans/p5/service_instances'' =
     Inl ''invalid character '<' looking for beginning of value'' \<and>
   failure_text ex_lib ''could not unmarshal response''
       ''invalid character '<' looking for beginning of value'' =
     ''FAILED: could not unmarshal response. Error: invalid character '<' looking for beginning of value''"
  using DescribeBroker_abort_prints_no_report [OF ex_run_b4] ex_run_b4
  by (simp add: ex_fetch failure_text_def)

subsection \<open>The report\<close>

text \<open>
  C6. For every run of \<open>DescribeBroker\<close> on a broker that is found and has plans, where
  the organization of every visible space is known and every plan is well formed: the run
  prints the two header lines, then the sections of exactly those plans whose listing
  reports a result count above zero, in the order of the plans, then a line end. A section
  starts with the header line of its plan, so the header line of a plan is printed if and
  only if its listing reports instances. When every listing reports a count of zero, the
  output is the two header lines and the line end, and no line of a plan.
\<close>

theorem DescribeBroker_plan_sections:
  assumes "fetch L d (brokers_endpoint L d) = Inr br" and "TotalResults br \<noteq> 0"
    and "Resources br = b0 # bs"
    and "fetch L d (plans_endpoint L (index_map (Metadata b0) ''guid'')) = Inr pr"
    and "TotalResults pr \<noteq> 0"
    and "\<forall>s \<in> set (GetSpaces (cliConnection d)). org_name_of L d (Guid s) \<noteq> None"
    and "\<forall>p \<in> set (Resources pr). plan_ok L d p"
  shows "fst (DescribeBroker L d st) = Inr () \<and>
    stdout (snd (DescribeBroker L d st)) =
      stdout st @ spec_header L d @
      concat (map (\<lambda>p. spec_plan_header L p @
                        concat (map (instance_line L (showGuids d) (GetSpaces (cliConnection d))
                                       (spec_orgs L d (GetSpaces (cliConnection d))))
                                  (listed_instances L d p)))
                (filter (\<lambda>p. listed_total L d p > 0) (Resources pr))) @
      ''\<newline>'' \<and>
    ((\<forall>p \<in> set (Resources pr). listed_total L d p = 0) \<longrightarrow>
       stdout (snd (DescribeBroker L d st)) = stdout st @ spec_header L d @ ''\<newline>'')"
proof -
  have sections: "spec_plan_section L d line =
      (\<lambda>p. spec_plan_header L p @ concat (map line (listed_instances L d p)))" for line
    by (simp add: spec_plan_section_def fun_eq_iff)
  have plans: "has_instances L d = (\<lambda>p. listed_total L d p > 0)"
    by (simp add: has_instances_def fun_eq_iff)
  have none: "filter (\<lambda>p. listed_total L d p > 0) (Resources pr) = []"
    if "\<forall>p \<in> set (Resources pr). listed_total L d p = 0"
    using that by (simp add: filter_empty_conv)
  show ?thesis
    unfolding DescribeBroker_report [OF assms]
    by (simp add: spec_report_def sections plans none)
qed

text \<open>
  The broker \<open>b3\<close> has two plans and no instances: its report is the header alone. The
  broker \<open>b1\<close> has a plan with an instance: its report has the section of the plan.
\<close>

theorem DescribeBroker_plan_sections_witness:
  "stdout (snd (DescribeBroker ex_lib (ex_plugin ''b3'' False) ex_start)) =
     ''Describing broker b3 as visible by admin\<newline>\<newline>\<newline>'' \<and>
   stdout (snd (DescribeBroker ex_lib (ex_plugin ''b1'' False) ex_start)) =
     ''Describing broker b1 as visible by admin\<newline>\<newline>Plan gold:\<newline>  Name: db1 - Org: acme - Space: dev\<newline>\<newline>''"
  using DescribeBroker_plan_sections
      [where d = "ex_plugin ''b3'' False" and st = ex_start, OF ex_b3_found]
    DescribeBroker_plan_sections
      [where d = "ex_plugin ''b1'' False" and st = ex_start, OF ex_b1_found]
  by (simp add: ex_report_defs, (simp add: ex_line_defs)?)

text \<open>
  C7. For every run of \<open>DescribeBroker\<close> under the conditions of the previous theorem:
  with \<open>showGuids\<close> set, the line of every instance is two spaces, then \<open>Guid: \<close>, the guid
  of the instance from its metadata (through the entity colouring) and \<open> - \<close>, then the
  part with name, organization and space; with \<open>showGuids\<close> not set, the line is the two
  spaces and that part, and the guid is not read.
\<close>

theorem DescribeBroker_guid_prefix:
  assumes "fetch L d (brokers_endpoint L d) = Inr br" and "TotalResults br \<noteq> 0"
    and "Resources br = b0 # bs"
    and "fetch L d (plans_endpoint L (index_map (Metadata b0) ''guid'')) = Inr pr"
    and "TotalResults pr \<noteq> 0"
    and "\<forall>s \<in> set (GetSpaces (cliConnection d)). org_name_of L d (Guid s) \<noteq> None"
    and "\<forall>p \<in> set (Resources pr). plan_ok L d p"
  shows "(showGuids d \<longrightarrow>
      stdout (snd (DescribeBroker L d st)) =
        stdout st @
        spec_report L d
          (\<lambda>i. ''  '' @ ''Guid: '' @ Entity L (string_of (index_map (Metadata i) ''guid'')) @
                '' - '' @
                instance_name_part L (GetSpaces (cliConnection d))
                  (spec_orgs L d (GetSpaces (cliConnection d))) i)
          (Resources pr)) \<and>
    (\<not> showGuids d \<longrightarrow>
      stdout (snd (DescribeBroker L d st)) =
        stdout st @
        spec_report L d
          (\<lambda>i. ''  '' @
                instance_name_part L (GetSpaces (cliConnection d))
                  (spec_orgs L d (GetSpaces (cliConnection d))) i)
          (Resources pr))"
proof -
  have shown: "instance_line L True spaces orgs =
      (\<lambda>i. ''  '' @ ''Guid: '' @ Entity L (string_of (index_map (Metadata i) ''guid'')) @
            '' - '' @ instance_name_part L spaces orgs i)" for spaces orgs
    by (simp add: instance_line_def fun_eq_iff)
  have hidden: "instance_line L False spaces orgs =
      (\<lambda>i. ''  '' @ instance_name_part L spaces orgs i)" for spaces orgs
    by (simp add: instance_line_def fun_eq_iff)
  show ?thesis
    unfolding DescribeBroker_report [OF assms]
    by (auto simp: shown hidden)
qed

text \<open>The broker \<open>b1\<close>, with and without guids.\<close>

theorem DescribeBroker_guid_prefix_witness:
  "stdout (snd (DescribeBroker ex_lib (ex_plugin ''b1'' True) ex_start)) =
     ''Describing broker b1 as visible by admin\<newline>\<newline>Plan gold:\<newline>  Guid: i1 - Name: db1 - Org: acme - Space: dev\<newline>\<newline>'' \<and>
   stdout (snd (DescribeBroker ex_lib (ex_plugin ''b1'' False) ex_start)) =
     ''Describing broker b1 as visible by admin\<newline>\<newline>Plan gold:\<newline>  Name: db1 - Org: acme - Space: dev\<newline>\<newline>''"
  using DescribeBroker_guid_prefix
      [where d = "ex_plugin ''b1'' True" and st = ex_start, OF ex_b1_found]
    DescribeBroker_guid_prefix
      [where d = "ex_plugin ''b1'' False" and st = ex_start, OF ex_b1_found]
  by (simp add: spec_report_def spec_plan_section_def has_instances_def ex_report_defs,
      (simp add: ex_line_defs)?)

text \<open>
  C1, as the program has it. For every run of \<open>DescribeBroker\<close> without guids where the
  broker is found, the plan query answers with the one plan \<open>gold\<close>, its listing with the
  one instance \<open>db1\<close> in the space with guid \<open>s1\<close>, that space is \<open>dev\<close>, its organization
  is \<open>acme\<close>, and the organization of every visible space is known: the run returns, and
  its output is the line \<open>Describing broker ... as visible by ...\<close>, an empty line, the two
  lines of the plan, and the empty line that \<open>Println\<close> ends the report with. Every name is
  printed through the entity colouring.
\<close>

theorem DescribeBroker_gold_report:
  assumes "\<not> showGuids d"
    and "fetch L d (brokers_endpoint L d) = Inr br" and "TotalResults br \<noteq> 0"
    and "Resources br = b0 # bs"
    and "fetch L d (plans_endpoint L (index_map (Metadata b0) ''guid'')) = Inr pr"
    and "TotalResults pr = 1" and "Resources pr = [plan]"
    and "index_map (EntityMap plan) ''name'' = JString ''gold''"
    and "index_map (EntityMap plan) ''service_instances_url'' = JString url"
    and "fetch L d url = Inr ir" and "TotalResults ir = 1" and "Resources ir = [instance]"
    and "index_map (EntityMap instance) ''name'' = JString ''db1''"
    and "index_map (EntityMap instance) ''space_guid'' = JString ''s1''"
    and "findSpace (GetSpaces (cliConnection d)) ''s1'' = \<lparr>Guid = ''s1'', Name = ''dev''\<rparr>"
    and "org_name_of L d ''s1'' = Some ''acme''"
    and "\<forall>s \<in> set (GetSpaces (cliConnection d)). org_name_of L d (Guid s) \<noteq> None"
  shows "fst (DescribeBroker L d st) = Inr () \<and>
    stdout (snd (DescribeBroker L d st)) =
      stdout st @
      ''Describing broker '' @ Entity L (brokerName d) @ '' as visible by '' @
      Entity L (Username (cliConnection d)) @ ''\<newline>\<newline>'' @
      ''Plan '' @ Entity L ''gold'' @ '':\<newline>'' @
      ''  Name: '' @ Entity L ''db1'' @ '' - Org: '' @ Entity L ''acme'' @ '' - Space: '' @
      Entity L ''dev'' @ ''\<newline>'' @
      ''\<newline>''"
proof -
  let ?spaces = "GetSpaces (cliConnection d)"
  have listing: "plan_listing L d plan = Some ir"
    using assms(9,10) by (simp add: plan_listing_def)
  have "instance_ok d instance"
    using assms(1,13,14) by (simp add: instance_ok_def)
  with listing assms(8,11,12) have ok: "plan_ok L d plan"
    by (simp add: plan_ok_def)
  then have plans: "\<forall>p \<in> set (Resources pr). plan_ok L d p"
    using assms(7) by simp
  have pr: "TotalResults pr \<noteq> 0"
    using assms(6) by simp
  have "Guid \<lparr>Guid = ''s1'', Name = ''dev''\<rparr> \<in> Guid ` set ?spaces"
    by (rule findSpace_Guid_in_set [OF assms(15)]) simp
  then have org: "index_orgs (spec_orgs L d ?spaces) ''s1'' = ''acme''"
    using assms(16) by (simp add: spec_orgs_def index_orgs_def)
  have line: "instance_line L False ?spaces (spec_orgs L d ?spaces) instance =
      ''  Name: '' @ Entity L ''db1'' @ '' - Org: '' @ Entity L ''acme'' @ '' - Space: '' @
      Entity L ''dev'' @ ''\<newline>''"
    using assms(13,14,15) org
    by (simp add: instance_line_def instance_name_part_def)
  show ?thesis
    unfolding DescribeBroker_report [OF assms(2,3,4,5) pr assms(17) plans]
    using assms(1,7,8,11,12) listing line
    by (simp add: spec_report_def spec_plan_section_def has_instances_def listed_total_def
        listed_instances_def spec_header_def spec_plan_header_def)
qed

text \<open>The broker \<open>b1\<close> of the small platform is this broker.\<close>

theorem DescribeBroker_gold_report_witness:
  "fst (DescribeBroker ex_lib (ex_plugin ''b1'' False) ex_start) = Inr () \<and>
   stdout (snd (DescribeBroker ex_lib (ex_plugin ''b1'' False) ex_start)) =
     ''Describing broker b1 as visible by admin\<newline>\<newline>Plan gold:\<newline>  Name: db1 - Org: acme - Space: dev\<newline>\<newline>''"
proof -
  have "fst (DescribeBroker ex_lib (ex_plugin ''b1'' False) ex_start) = Inr () \<and>
    stdout (snd (DescribeBroker ex_lib (ex_plugin ''b1'' False) ex_start)) =
      stdout ex_start @
      ''Describing broker '' @ Entity ex_lib (brokerName (ex_plugin ''b1'' False)) @
      '' as visible by '' @
      Entity ex_lib (Username (cliConnection (ex_plugin ''b1'' False))) @ ''\<newline>\<newline>'' @
      ''Plan '' @ Entity ex_lib ''gold'' @ '':\<newline>'' @
      ''  Name: '' @ Entity ex_lib ''db1'' @ '' - Org: '' @ Entity ex_lib ''acme'' @
      '' - Space: '' @ Entity ex_lib ''dev'' @ ''\<newline>'' @
      ''\<newline>''"
  proof (rule DescribeBroker_gold_report [OF _ ex_b1_found(1,2,3,4)])
    show "\<not> showGuids (ex_plugin ''b1'' False)"
      by simp
    show "TotalResults \<lparr>TotalResults = 1, Resources = [ex_plan ''p1'' ''gold'']\<rparr> = 1"
      and "Resources \<lparr>TotalResults = 1, Resources = [ex_plan ''p1'' ''gold'']\<rparr> =
        [ex_plan ''p1'' ''gold'']"
      by simp_all
    show "index_map (EntityMap (ex_plan ''p1'' ''gold'')) ''name'' = JString ''gold''"
      and "index_map (EntityMap (ex_plan ''p1'' ''gold'')) ''service_instances_url'' =
        JString ''/v2/service_plans/p1/service_instances''"
      by (simp_all add: ex_plan_def ex_resource_def index_map_def)
    show "fetch ex_lib (ex_plugin ''b1'' False) ''/v2/service_plans/p1/service_instances'' =
        Inr \<lparr>TotalResults = 1,
             Resources = [ex_resource [(''guid'', ''i1'')]
                            [(''name'', ''db1''), (''space_guid'', ''s1'')]]\<rparr>"
      by (rule ex_fetch)
    show "TotalResults \<lparr>TotalResults = 1,
        Resources = [ex_resource [(''guid'', ''i1'')]
                       [(''name'', ''db1''), (''space_guid'', ''s1'')]]\<rparr> = 1"
      and "Resources \<lparr>TotalResults = 1,
        Resources = [ex_resource [(''guid'', ''i1'')]
                       [(''name'', ''db1''), (''space_guid'', ''s1'')]]\<rparr> =
        [ex_resource [(''guid'', ''i1'')] [(''name'', ''db1''), (''space_guid'', ''s1'')]]"
      by simp_all
    show "index_map (EntityMap (ex_resource [(''guid'', ''i1'')]
        [(''name'', ''db1''), (''space_guid'', ''s1'')])) ''name'' = JString ''db1''"
      and "index_map (EntityMap (ex_resource [(''guid'', ''i1'')]
        [(''name'', ''db1''), (''space_guid'', ''s1'')])) ''space_guid'' = JString ''s1''"
      by (simp_all add: ex_resource_def index_map_def)
    show "findSpace (GetSpaces (cliConnection (ex_plugin ''b1'' False))) ''s1'' =
        \<lparr>Guid = ''s1'', Name = ''dev''\<rparr>"
      by (simp add: ex_spaces_def)
    show "org_name_of ex_lib (ex_plugin ''b1'' False) ''s1'' = Some ''acme''"
      by (rule ex_org_name_of)
    show "\<forall>s \<in> set (GetSpaces (cliConnection (ex_plugin ''b1'' False))).
        org_name_of ex_lib (ex_plugin ''b1'' False) (Guid s) \<noteq> None"
      by (rule ex_orgs_ok)
  qed
  then show ?thesis
    by (simp add: ex_start_def)
qed

text \<open>
  C1, as the claim has it: the output would be the two lines of the plan and nothing
  else. On the small platform, with colours off, the run for \<open>b1\<close> meets the conditions of
  the claim (one plan \<open>gold\<close>, one instance \<open>db1\<close> in \<open>s1\<close>, the space \<open>dev\<close> of \<open>acme\<close>, no
  guids), and its output starts with the line \<open>Describing broker b1 as visible by admin\<close>
  and ends with an empty line.
\<close>

theorem DescribeBroker_gold_counterexample:
  "\<not> showGuids (ex_plugin ''b1'' False) \<and>
   fetch ex_lib (ex_plugin ''b1'' False) ''/v2/service_plans?q=service_broker_guid:bg1'' =
     Inr \<lparr>TotalResults = 1, Resources = [ex_plan ''p1'' ''gold'']\<rparr> \<and>
   index_map (EntityMap (ex_plan ''p1'' ''gold'')) ''name'' = JString ''gold'' \<and>
   plan_listing ex_lib (ex_plugin ''b1'' False) (ex_plan ''p1'' ''gold'') =
     Some \<lparr>TotalResults = 1,
           Resources = [ex_resource [(''guid'', ''i1'')]
                          [(''name'', ''db1''), (''space_guid'', ''s1'')]]\<rparr> \<and>
   findSpace ex_spaces ''s1'' = \<lparr>Guid = ''s1'', Name = ''dev''\<rparr> \<and>
   org_name_of ex_lib (ex_plugin ''b1'' False) ''s1'' = Some ''acme'' \<and>
   stdout (snd (DescribeBroker ex_lib (ex_plugin ''b1'' False) ex_start)) =
     ''Describing broker b1 as visible by admin\<newline>\<newline>Plan gold:\<newline>  Name: db1 - Org: acme - Space: dev\<newline>\<newline>'' \<and>
   stdout (snd (DescribeBroker ex_lib (ex_plugin ''b1'' False) ex_start)) \<noteq>
     ''Plan gold:\<newline>  Name: db1 - Org: acme - Space: dev\<newline>''"
  by (simp add: ex_run_b1 ex_fetch ex_listing ex_org_name_of ex_spaces_def)
    (simp add: ex_plan_def ex_resource_def index_map_def)

end
